theory Spec2Isabelle
  imports Complex_Main
begin

section \<open>Tensors\<close>

text \<open>
  The program is written against a tensor library. A tensor is modelled as the library
  stores a contiguous one: its sizes and its elements in row-major order. Elements are
  real numbers here; rounding, overflow to infinity and NaN of 32-bit floats are outside
  this model, and every statement below is about the exact arithmetic the code denotes.
  Every exception the code or the library can raise is a value of \<open>error\<close>.
\<close>

datatype error = RuntimeError | AssertionError | ZeroDivisionError | IndexError | ValueError

record 'a tensor =
  shape :: "nat list"
  data :: "'a list"

definition r_bind :: "error + 'a \<Rightarrow> ('a \<Rightarrow> error + 'b) \<Rightarrow> error + 'b" where
  "r_bind m f = (case m of Inl e \<Rightarrow> Inl e | Inr v \<Rightarrow> f v)"

definition wf_tensor :: "'a tensor \<Rightarrow> bool" where
  "wf_tensor t = (length (data t) = prod_list (shape t))"

text \<open>Row-major position of a multi-index, and the multi-index of a position.\<close>

fun offset :: "nat list \<Rightarrow> nat list \<Rightarrow> nat" where
  "offset (n # ns) (i # js) = i * prod_list ns + offset ns js"
| "offset _ _ = 0"

fun unravel :: "nat list \<Rightarrow> nat \<Rightarrow> nat list" where
  "unravel [] k = []"
| "unravel (n # ns) k = (k div prod_list ns) # unravel ns (k mod prod_list ns)"

definition valid_index :: "nat list \<Rightarrow> nat list \<Rightarrow> bool" where
  "valid_index shp idx = list_all2 (<) idx shp"

definition get :: "'a tensor \<Rightarrow> nat list \<Rightarrow> 'a" where
  "get t idx = data t ! offset (shape t) idx"

definition tabulate :: "nat list \<Rightarrow> (nat list \<Rightarrow> 'a) \<Rightarrow> 'a tensor" where
  "tabulate shp f = \<lparr>shape = shp, data = map (\<lambda>k. f (unravel shp k)) [0..<prod_list shp]\<rparr>"

definition map_tensor :: "('a \<Rightarrow> 'b) \<Rightarrow> 'a tensor \<Rightarrow> 'b tensor" where
  "map_tensor f t = \<lparr>shape = shape t, data = map f (data t)\<rparr>"

subsection \<open>Library operations the program calls\<close>

text \<open>\<open>wrap_dim\<close>: a dimension argument may count from the end; out of range is an IndexError.\<close>

definition wrap_dim :: "nat \<Rightarrow> int \<Rightarrow> nat option" where
  "wrap_dim r d =
     (let r' = int (max r 1) in
      if - r' \<le> d \<and> d < r' then Some (nat (if d < 0 then d + r' else d)) else None)"

text \<open>\<open>torch.zeros(*sizes)\<close>: a negative size raises.\<close>

definition zeros :: "int list \<Rightarrow> error + real tensor" where
  "zeros dims =
     (if list_ex (\<lambda>d. d < 0) dims then Inl RuntimeError
      else Inr \<lparr>shape = map nat dims, data = replicate (prod_list (map nat dims)) 0\<rparr>)"

text \<open>\<open>torch.arange(start, stop, step).float()\<close> for integer arguments; step 0 raises.\<close>

definition arange :: "int \<Rightarrow> int \<Rightarrow> int \<Rightarrow> error + real tensor" where
  "arange start stop step =
     (if step = 0 then Inl RuntimeError
      else if (step > 0 \<and> stop < start) \<or> (step < 0 \<and> start < stop) then Inl RuntimeError
      else let n = nat ((stop - start + step - (if step > 0 then 1 else - 1)) div step) in
        Inr \<lparr>shape = [n], data = map (\<lambda>k. real_of_int (start + int k * step)) [0..<n]\<rparr>)"

text \<open>\<open>t.unsqueeze(1)\<close>.\<close>

definition unsqueeze1 :: "'a tensor \<Rightarrow> error + 'a tensor" where
  "unsqueeze1 t =
     (if length (shape t) < 1 then Inl IndexError
      else Inr \<lparr>shape = take 1 (shape t) @ [1] @ drop 1 (shape t), data = data t\<rparr>)"

text \<open>\<open>t.unsqueeze(0)\<close>.\<close>

definition unsqueeze0 :: "'a tensor \<Rightarrow> 'a tensor" where
  "unsqueeze0 t = \<lparr>shape = 1 # shape t, data = data t\<rparr>"

text \<open>
  Broadcasting: sizes are aligned from the right; two sizes are compatible when they are
  equal or one of them is 1.
\<close>

fun broadcast_rev :: "nat list \<Rightarrow> nat list \<Rightarrow> nat list option" where
  "broadcast_rev [] ys = Some ys"
| "broadcast_rev xs [] = Some xs"
| "broadcast_rev (x # xs) (y # ys) =
     (if x = y \<or> y = 1 then map_option ((#) x) (broadcast_rev xs ys)
      else if x = 1 then map_option ((#) y) (broadcast_rev xs ys)
      else None)"

definition broadcast_shapes :: "nat list \<Rightarrow> nat list \<Rightarrow> nat list option" where
  "broadcast_shapes a b = map_option rev (broadcast_rev (rev a) (rev b))"

text \<open>The element of \<open>t\<close> that lands at index \<open>idx\<close> of the broadcast result.\<close>

definition bget :: "'a tensor \<Rightarrow> nat list \<Rightarrow> 'a" where
  "bget t idx =
     get t (map2 (\<lambda>n i. if n = 1 then 0 else i) (shape t)
              (drop (length idx - length (shape t)) idx))"

definition binop :: "(real \<Rightarrow> real \<Rightarrow> real) \<Rightarrow> real tensor \<Rightarrow> real tensor \<Rightarrow> error + real tensor" where
  "binop f x y =
     (case broadcast_shapes (shape x) (shape y) of
        None \<Rightarrow> Inl RuntimeError
      | Some s \<Rightarrow> Inr (tabulate s (\<lambda>idx. f (bget x idx) (bget y idx))))"

definition add :: "real tensor \<Rightarrow> real tensor \<Rightarrow> error + real tensor" where
  "add = binop (+)"

definition mul :: "real tensor \<Rightarrow> real tensor \<Rightarrow> error + real tensor" where
  "mul = binop (*)"

text \<open>
  \<open>dst[:, start::step] = src\<close> on a two-dimensional \<open>dst\<close>: the selected columns are
  \<open>start, start + step, \<dots>\<close>; \<open>src\<close> must broadcast to the selected block, else the
  assignment raises.
\<close>

definition selected_cols :: "nat \<Rightarrow> nat \<Rightarrow> nat \<Rightarrow> nat" where
  "selected_cols cols start step = (cols - start + step - 1) div step"

definition setitem_cols :: "real tensor \<Rightarrow> nat \<Rightarrow> nat \<Rightarrow> real tensor \<Rightarrow> error + real tensor" where
  "setitem_cols dst start step src =
     (case shape dst of
        [rows, cols] \<Rightarrow>
          (if step = 0 then Inl ValueError
           else if broadcast_shapes (shape src) [rows, selected_cols cols start step]
                     = Some [rows, selected_cols cols start step]
           then Inr (tabulate [rows, cols]
                  (\<lambda>idx. if start \<le> idx ! 1 \<and> (idx ! 1 - start) mod step = 0
                          then bget src [idx ! 0, (idx ! 1 - start) div step]
                          else get dst idx))
           else Inl RuntimeError)
      | _ \<Rightarrow> Inl IndexError)"

text \<open>\<open>t[:, :n, :]\<close>: needs three dimensions; a slice bound past the end is clipped.\<close>

definition slice_dim1 :: "'a tensor \<Rightarrow> nat \<Rightarrow> error + 'a tensor" where
  "slice_dim1 t n =
     (if length (shape t) < 3 then Inl IndexError
      else Inr (tabulate ((shape t)[1 := min n (shape t ! 1)]) (get t)))"

text \<open>\<open>t.size(d)\<close> for a non-negative \<open>d\<close>.\<close>

definition size_at :: "'a tensor \<Rightarrow> nat \<Rightarrow> error + nat" where
  "size_at t d = (if d < length (shape t) then Inr (shape t ! d) else Inl IndexError)"

text \<open>
  \<open>t.view(*dims)\<close> on a contiguous tensor: at most one size may be \<open>-1\<close> and is inferred
  from the number of elements; it cannot be inferred when the other sizes multiply to 0.
\<close>

definition view :: "'a tensor \<Rightarrow> int list \<Rightarrow> error + 'a tensor" where
  "view t dims =
     (let total = int (prod_list (shape t));
          known = prod_list (filter (\<lambda>d. d \<noteq> - 1) dims) in
      if list_ex (\<lambda>d. d < - 1) dims then Inl RuntimeError
      else if 1 < length (filter (\<lambda>d. d = - 1) dims) then Inl RuntimeError
      else if list_ex (\<lambda>d. d = - 1) dims then
        (if known = 0 then Inl RuntimeError
         else if total mod known \<noteq> 0 then Inl RuntimeError
         else Inr \<lparr>shape = map (\<lambda>d. nat (if d = - 1 then total div known else d)) dims,
                   data = data t\<rparr>)
      else if known \<noteq> total then Inl RuntimeError
      else Inr \<lparr>shape = map nat dims, data = data t\<rparr>)"

text \<open>\<open>t.transpose(d0, d1)\<close>, made contiguous.\<close>

definition swap :: "nat \<Rightarrow> nat \<Rightarrow> 'a list \<Rightarrow> 'a list" where
  "swap i j xs = xs[i := xs ! j, j := xs ! i]"

definition transpose_t :: "'a tensor \<Rightarrow> int \<Rightarrow> int \<Rightarrow> error + 'a tensor" where
  "transpose_t t d0 d1 =
     (case (wrap_dim (length (shape t)) d0, wrap_dim (length (shape t)) d1) of
        (Some i, Some j) \<Rightarrow> Inr (tabulate (swap i j (shape t)) (\<lambda>idx. get t (swap i j idx)))
      | _ \<Rightarrow> Inl IndexError)"

text \<open>
  \<open>t.unfold(dim, size, step)\<close>: all windows of \<open>size\<close> elements along \<open>dim\<close>, \<open>step\<close>
  apart; the window count replaces the size of \<open>dim\<close> and the position inside the window
  becomes a new last dimension. Elements after the last whole window are dropped.
\<close>

definition unfold_t :: "'a tensor \<Rightarrow> nat \<Rightarrow> int \<Rightarrow> int \<Rightarrow> error + 'a tensor" where
  "unfold_t t ax sz step =
     (if length (shape t) \<le> ax then Inl IndexError
      else if sz < 0 \<or> int (shape t ! ax) < sz then Inl RuntimeError
      else if step \<le> 0 then Inl RuntimeError
      else let cnt = (shape t ! ax - nat sz) div nat step + 1 in
        Inr (tabulate ((shape t)[ax := cnt] @ [nat sz])
               (\<lambda>idx. get t ((butlast idx)[ax := idx ! ax * nat step + last idx]))))"

text \<open>
  \<open>torch.matmul(a, b)\<close>: a one-dimensional operand is promoted to a matrix and the added
  dimension removed afterwards; the leading (batch) dimensions broadcast.
\<close>

definition matmul :: "real tensor \<Rightarrow> real tensor \<Rightarrow> error + real tensor" where
  "matmul a b =
     (let ra = length (shape a); rb = length (shape b) in
      if ra = 0 \<or> rb = 0 then Inl RuntimeError
      else
        let sa = (if ra = 1 then 1 # shape a else shape a);
            sb = (if rb = 1 then shape b @ [1] else shape b);
            a' = \<lparr>shape = sa, data = data a\<rparr>;
            b' = \<lparr>shape = sb, data = data b\<rparr>;
            m = sa ! (length sa - 2); k = last sa; n = last sb
        in if k \<noteq> sb ! (length sb - 2) then Inl RuntimeError
           else (case broadcast_shapes (butlast (butlast sa)) (butlast (butlast sb)) of
                   None \<Rightarrow> Inl RuntimeError
                 | Some bs \<Rightarrow>
                     let full = tabulate (bs @ [m, n])
                           (\<lambda>idx. let batch = butlast (butlast idx);
                                       i = idx ! (length idx - 2); j = last idx
                                   in (\<Sum>c\<leftarrow>[0..<k]. bget a' (batch @ [i, c]) * bget b' (batch @ [c, j])))
                     in Inr \<lparr>shape = bs @ (if ra = 1 then [] else [m]) @ (if rb = 1 then [] else [n]),
                             data = data full\<rparr>))"

text \<open>\<open>nn.Softmax(dim=-1)\<close>: \<open>exp x\<^sub>j / \<Sum>\<^sub>c exp x\<^sub>c\<close> along the last dimension.\<close>

definition softmax :: "real tensor \<Rightarrow> real tensor" where
  "softmax t =
     (if shape t = [] then map_tensor (\<lambda>_. 1) t
      else tabulate (shape t)
             (\<lambda>idx. exp (get t idx) /
                     (\<Sum>c\<leftarrow>[0..<last (shape t)]. exp (get t (butlast idx @ [c])))))"

text \<open>\<open>t.mean(dim=1)\<close>; over an empty dimension the library yields NaN, this model 0.\<close>

definition mean_dim1 :: "real tensor \<Rightarrow> error + real tensor" where
  "mean_dim1 t =
     (if length (shape t) < 2 then Inl IndexError
      else Inr (tabulate (take 1 (shape t) @ drop 2 (shape t))
             (\<lambda>idx. (\<Sum>c\<leftarrow>[0..<shape t ! 1]. get t (take 1 idx @ [c] @ drop 1 idx))
                      / real (shape t ! 1))))"

text \<open>\<open>F.linear(x, W, b)\<close>: \<open>x W\<^sup>T + b\<close> on the last dimension, \<open>W\<close> of shape [out, in].\<close>

definition linear :: "real tensor \<Rightarrow> real tensor \<Rightarrow> real tensor \<Rightarrow> error + real tensor" where
  "linear x w b =
     (case shape w of
        [n_out, n_in] \<Rightarrow>
          (if shape x = [] \<or> last (shape x) \<noteq> n_in \<or> shape b \<noteq> [n_out] then Inl RuntimeError
           else Inr (tabulate (butlast (shape x) @ [n_out])
                  (\<lambda>idx. (\<Sum>c\<leftarrow>[0..<n_in]. get x (butlast idx @ [c]) * get w [last idx, c])
                          + get b [last idx])))
      | _ \<Rightarrow> Inl RuntimeError)"

text \<open>
  \<open>F.layer_norm(x, [d], weight, bias, eps)\<close>: mean and (biased) variance over the last
  dimension, which must have size \<open>d\<close>.
\<close>

definition layer_norm :: "real tensor \<Rightarrow> real tensor \<Rightarrow> real tensor \<Rightarrow> real \<Rightarrow> error + real tensor" where
  "layer_norm x w b eps =
     (case shape w of
        [d] \<Rightarrow>
          (if shape x = [] \<or> last (shape x) \<noteq> d \<or> shape b \<noteq> [d] then Inl RuntimeError
           else Inr (tabulate (shape x)
                  (\<lambda>idx. let row = map (\<lambda>c. get x (butlast idx @ [c])) [0..<d];
                              mu = sum_list row / real d;
                              var = (\<Sum>v\<leftarrow>row. (v - mu)\<^sup>2) / real d
                          in (get x idx - mu) / sqrt (var + eps) * get w [last idx]
                             + get b [last idx])))
      | _ \<Rightarrow> Inl RuntimeError)"

definition relu :: "real tensor \<Rightarrow> real tensor" where
  "relu = map_tensor (max 0)"

section \<open>Parameters and their initialisation\<close>

text \<open>
  Learned parameters are created with random values. The random source is a stream of
  reals; creating a parameter takes the next values of the stream and returns the rest.
\<close>

type_synonym gen = "nat \<Rightarrow> real"

definition draw :: "nat list \<Rightarrow> gen \<Rightarrow> real tensor \<times> gen" where
  "draw shp g = (\<lparr>shape = shp, data = map g [0..<prod_list shp]\<rparr>, \<lambda>k. g (k + prod_list shp))"

record Linear =
  weight :: "real tensor"
  bias :: "real tensor"

definition Linear_init :: "int \<Rightarrow> int \<Rightarrow> gen \<Rightarrow> error + (Linear \<times> gen)" where
  "Linear_init in_features out_features g =
     (if in_features < 0 \<or> out_features < 0 then Inl RuntimeError
      else let (w, g1) = draw [nat out_features, nat in_features] g;
               (b, g2) = draw [nat out_features] g1
           in Inr (\<lparr>weight = w, bias = b\<rparr>, g2))"

definition Linear_forward :: "Linear \<Rightarrow> real tensor \<Rightarrow> error + real tensor" where
  "Linear_forward l x = linear x (weight l) (bias l)"

record LayerNorm =
  ln_weight :: "real tensor"
  ln_bias :: "real tensor"
  ln_eps :: real

definition LayerNorm_init :: "int \<Rightarrow> error + LayerNorm" where
  "LayerNorm_init d =
     (if d < 0 then Inl RuntimeError
      else Inr \<lparr>ln_weight = \<lparr>shape = [nat d], data = replicate (nat d) 1\<rparr>,
                ln_bias = \<lparr>shape = [nat d], data = replicate (nat d) 0\<rparr>,
                ln_eps = 1 / 100000\<rparr>)"

definition LayerNorm_forward :: "LayerNorm \<Rightarrow> real tensor \<Rightarrow> error + real tensor" where
  "LayerNorm_forward l x = layer_norm x (ln_weight l) (ln_bias l) (ln_eps l)"

section \<open>PositionalEncoding\<close>

record PositionalEncoding =
  pe :: "real tensor"

definition div_term :: "int \<Rightarrow> real tensor \<Rightarrow> real tensor" where
  "div_term d_model evens =
     map_tensor exp (map_tensor (\<lambda>v. v * (- ln 10000 / real_of_int d_model)) evens)"

definition PositionalEncoding_init :: "int \<Rightarrow> int \<Rightarrow> error + PositionalEncoding" where
  "PositionalEncoding_init d_model max_len =
     r_bind (zeros [max_len, d_model]) (\<lambda>pe0.
     r_bind (arange 0 max_len 1) (\<lambda>ar.
     r_bind (unsqueeze1 ar) (\<lambda>position.
     r_bind (arange 0 d_model 2) (\<lambda>evens.
     if d_model = 0 then Inl ZeroDivisionError
     else
       r_bind (mul position (div_term d_model evens)) (\<lambda>a0.
       r_bind (setitem_cols pe0 0 2 (map_tensor sin a0)) (\<lambda>pe1.
       r_bind (mul position (div_term d_model evens)) (\<lambda>a1.
       r_bind (setitem_cols pe1 1 2 (map_tensor cos a1)) (\<lambda>pe2.
       Inr \<lparr>pe = unsqueeze0 pe2\<rparr>))))))))"

definition PositionalEncoding_forward :: "PositionalEncoding \<Rightarrow> real tensor \<Rightarrow> error + real tensor" where
  "PositionalEncoding_forward m x =
     r_bind (size_at x 1) (\<lambda>n.
     r_bind (slice_dim1 (pe m) n) (\<lambda>s.
     add x s))"

section \<open>MultiHeadAttention\<close>

record MultiHeadAttention =
  num_heads :: int
  d_k :: int
  q_linear :: Linear
  k_linear :: Linear
  v_linear :: Linear
  out_proj :: Linear

definition MultiHeadAttention_init :: "int \<Rightarrow> int \<Rightarrow> gen \<Rightarrow> error + (MultiHeadAttention \<times> gen)" where
  "MultiHeadAttention_init d_model n_heads g =
     (if n_heads = 0 then Inl ZeroDivisionError
      else if d_model mod n_heads \<noteq> 0 then Inl AssertionError
      else
        r_bind (Linear_init d_model d_model g) (\<lambda>(q, g1).
        r_bind (Linear_init d_model d_model g1) (\<lambda>(k, g2).
        r_bind (Linear_init d_model d_model g2) (\<lambda>(v, g3).
        r_bind (Linear_init d_model d_model g3) (\<lambda>(p, g4).
        Inr (\<lparr>num_heads = n_heads, d_k = d_model div n_heads,
               q_linear = q, k_linear = k, v_linear = v, out_proj = p\<rparr>, g4))))))"

text \<open>
  Lines 53 to 56 of the source: the scores and the weights after the softmax.
  \<open>math.sqrt\<close> raises a ValueError on a negative \<open>d_k\<close>. For \<open>d_k = 0\<close> the library
  divides by zero and yields infinities and NaN, which this model cannot express; the
  statements about the weights assume a positive \<open>d_k\<close>.
\<close>

definition attention_weights :: "MultiHeadAttention \<Rightarrow> real tensor \<Rightarrow> real tensor \<Rightarrow> error + real tensor" where
  "attention_weights m Q K =
     r_bind (transpose_t K (- 2) (- 1)) (\<lambda>Kt.
     r_bind (matmul Q Kt) (\<lambda>qk.
     if d_k m < 0 then Inl ValueError
     else Inr (softmax (map_tensor (\<lambda>v. v / sqrt (real_of_int (d_k m))) qk))))"

definition scaled_dot_product_attention ::
  "MultiHeadAttention \<Rightarrow> real tensor \<Rightarrow> real tensor \<Rightarrow> real tensor \<Rightarrow> error + real tensor" where
  "scaled_dot_product_attention m Q K V =
     r_bind (attention_weights m Q K) (\<lambda>weights. matmul weights V)"

text \<open>\<open>.view(batch_size, -1, num_heads, d_k).transpose(1, 2)\<close>\<close>

definition split_heads :: "MultiHeadAttention \<Rightarrow> nat \<Rightarrow> real tensor \<Rightarrow> error + real tensor" where
  "split_heads m batch_size x =
     r_bind (view x [int batch_size, - 1, num_heads m, d_k m]) (\<lambda>v. transpose_t v 1 2)"

text \<open>\<open>.transpose(1, 2).contiguous().view(batch_size, -1, num_heads * d_k)\<close>\<close>

definition concat_heads :: "MultiHeadAttention \<Rightarrow> nat \<Rightarrow> real tensor \<Rightarrow> error + real tensor" where
  "concat_heads m batch_size x =
     r_bind (transpose_t x 1 2) (\<lambda>v. view v [int batch_size, - 1, num_heads m * d_k m])"

definition MultiHeadAttention_forward ::
  "MultiHeadAttention \<Rightarrow> real tensor \<Rightarrow> real tensor \<Rightarrow> real tensor \<Rightarrow> error + real tensor" where
  "MultiHeadAttention_forward m Q K V =
     r_bind (size_at Q 0) (\<lambda>batch_size.
     r_bind (r_bind (Linear_forward (q_linear m) Q) (split_heads m batch_size)) (\<lambda>Q'.
     r_bind (r_bind (Linear_forward (k_linear m) K) (split_heads m batch_size)) (\<lambda>K'.
     r_bind (r_bind (Linear_forward (v_linear m) V) (split_heads m batch_size)) (\<lambda>V'.
     r_bind (scaled_dot_product_attention m Q' K' V') (\<lambda>out.
     r_bind (concat_heads m batch_size out) (\<lambda>cat.
     Linear_forward (out_proj m) cat))))))"

section \<open>PositionWiseFeedForward\<close>

record PositionWiseFeedForward =
  fc1 :: Linear
  fc2 :: Linear

definition PositionWiseFeedForward_init ::
  "int \<Rightarrow> int \<Rightarrow> gen \<Rightarrow> error + (PositionWiseFeedForward \<times> gen)" where
  "PositionWiseFeedForward_init d_model d_ff g =
     r_bind (Linear_init d_model d_ff g) (\<lambda>(a, g1).
     r_bind (Linear_init d_ff d_model g1) (\<lambda>(b, g2).
     Inr (\<lparr>fc1 = a, fc2 = b\<rparr>, g2)))"

definition PositionWiseFeedForward_forward :: "PositionWiseFeedForward \<Rightarrow> real tensor \<Rightarrow> error + real tensor" where
  "PositionWiseFeedForward_forward m x =
     r_bind (Linear_forward (fc1 m) x) (\<lambda>h. Linear_forward (fc2 m) (relu h))"

section \<open>EncoderLayer\<close>

record EncoderLayer =
  attention :: MultiHeadAttention
  norm1 :: LayerNorm
  ffn :: PositionWiseFeedForward
  norm2 :: LayerNorm

definition EncoderLayer_init :: "int \<Rightarrow> int \<Rightarrow> int \<Rightarrow> gen \<Rightarrow> error + (EncoderLayer \<times> gen)" where
  "EncoderLayer_init d_model n_heads d_ff g =
     r_bind (MultiHeadAttention_init d_model n_heads g) (\<lambda>(a, g1).
     r_bind (LayerNorm_init d_model) (\<lambda>n1.
     r_bind (PositionWiseFeedForward_init d_model d_ff g1) (\<lambda>(f, g2).
     r_bind (LayerNorm_init d_model) (\<lambda>n2.
     Inr (\<lparr>attention = a, norm1 = n1, ffn = f, norm2 = n2\<rparr>, g2)))))"

definition EncoderLayer_forward :: "EncoderLayer \<Rightarrow> real tensor \<Rightarrow> error + real tensor" where
  "EncoderLayer_forward m x =
     r_bind (MultiHeadAttention_forward (attention m) x x x) (\<lambda>attn_output.
     r_bind (r_bind (add x attn_output) (LayerNorm_forward (norm1 m))) (\<lambda>x1.
     r_bind (PositionWiseFeedForward_forward (ffn m) x1) (\<lambda>ffn_output.
     r_bind (add x1 ffn_output) (LayerNorm_forward (norm2 m)))))"

section \<open>TransformerEncoder\<close>

record TransformerEncoder =
  patch_size :: int
  num_patches :: int
  patch_dim :: int
  patch_embedding :: Linear
  positional_encoding :: PositionalEncoding
  encoder_layers :: "EncoderLayer list"
  norm_ln :: LayerNorm
  fc :: Linear

text \<open>The list comprehension over \<open>range(num_layers)\<close>.\<close>

fun make_layers :: "nat \<Rightarrow> int \<Rightarrow> int \<Rightarrow> int \<Rightarrow> gen \<Rightarrow> error + (EncoderLayer list \<times> gen)" where
  "make_layers 0 d_model n_heads d_ff g = Inr ([], g)"
| "make_layers (Suc n) d_model n_heads d_ff g =
     r_bind (EncoderLayer_init d_model n_heads d_ff g) (\<lambda>(l, g1).
     r_bind (make_layers n d_model n_heads d_ff g1) (\<lambda>(ls, g2).
     Inr (l # ls, g2)))"

definition TransformerEncoder_init ::
  "int \<Rightarrow> int \<Rightarrow> int \<Rightarrow> int \<Rightarrow> int \<Rightarrow> int \<Rightarrow> int \<Rightarrow> gen \<Rightarrow> error + (TransformerEncoder \<times> gen)" where
  "TransformerEncoder_init img_size p_size d_model n_heads num_layers d_ff num_classes g =
     (if p_size = 0 then Inl ZeroDivisionError
      else
        let n_patches = (img_size div p_size)\<^sup>2;
            p_dim = 3 * p_size * p_size
        in
        r_bind (Linear_init p_dim d_model g) (\<lambda>(emb, g1).
        r_bind (PositionalEncoding_init d_model n_patches) (\<lambda>posenc.
        r_bind (make_layers (nat num_layers) d_model n_heads d_ff g1) (\<lambda>(layers, g2).
        r_bind (LayerNorm_init d_model) (\<lambda>nrm.
        r_bind (Linear_init d_model num_classes g2) (\<lambda>(cls, g3).
        Inr (\<lparr>patch_size = p_size, num_patches = n_patches, patch_dim = p_dim,
               patch_embedding = emb, positional_encoding = posenc,
               encoder_layers = layers, norm_ln = nrm, fc = cls\<rparr>, g3)))))))"

definition patchify :: "TransformerEncoder \<Rightarrow> 'a tensor \<Rightarrow> error + 'a tensor" where
  "patchify m images =
     r_bind (size_at images 0) (\<lambda>batch_size.
     r_bind (unfold_t images 2 (patch_size m) (patch_size m)) (\<lambda>u.
     r_bind (unfold_t u 3 (patch_size m) (patch_size m)) (\<lambda>patches.
     view patches [int batch_size, - 1, patch_dim m])))"

text \<open>The loop over \<open>self.encoder_layers\<close>.\<close>

fun run_layers :: "EncoderLayer list \<Rightarrow> real tensor \<Rightarrow> error + real tensor" where
  "run_layers [] x = Inr x"
| "run_layers (l # ls) x = r_bind (EncoderLayer_forward l x) (run_layers ls)"

definition TransformerEncoder_forward :: "TransformerEncoder \<Rightarrow> real tensor \<Rightarrow> error + real tensor" where
  "TransformerEncoder_forward m x =
     r_bind (patchify m x) (\<lambda>x1.
     r_bind (Linear_forward (patch_embedding m) x1) (\<lambda>x2.
     r_bind (PositionalEncoding_forward (positional_encoding m) x2) (\<lambda>x3.
     r_bind (run_layers (encoder_layers m) x3) (\<lambda>x4.
     r_bind (LayerNorm_forward (norm_ln m) x4) (\<lambda>x5.
     r_bind (mean_dim1 x5) (\<lambda>x6.
     Linear_forward (fc m) x6))))))"

section \<open>Shape invariants\<close>

text \<open>
  Shape invariants of the modules: what the constructors establish and the optimizer
  preserves. The forward functions are analysed under them.
\<close>

definition Linear_ok :: "Linear \<Rightarrow> nat \<Rightarrow> nat \<Rightarrow> bool" where
  "Linear_ok l n_in n_out = (shape (weight l) = [n_out, n_in] \<and> shape (bias l) = [n_out])"

definition LayerNorm_ok :: "LayerNorm \<Rightarrow> nat \<Rightarrow> bool" where
  "LayerNorm_ok l d = (shape (ln_weight l) = [d] \<and> shape (ln_bias l) = [d])"

definition MultiHeadAttention_ok :: "MultiHeadAttention \<Rightarrow> nat \<Rightarrow> nat \<Rightarrow> bool" where
  "MultiHeadAttention_ok m h k =
     (num_heads m = int h \<and> d_k m = int k \<and> 0 < h \<and> 0 < k \<and>
      Linear_ok (q_linear m) (h * k) (h * k) \<and> Linear_ok (k_linear m) (h * k) (h * k) \<and>
      Linear_ok (v_linear m) (h * k) (h * k) \<and> Linear_ok (out_proj m) (h * k) (h * k))"

definition PositionWiseFeedForward_ok :: "PositionWiseFeedForward \<Rightarrow> nat \<Rightarrow> nat \<Rightarrow> bool" where
  "PositionWiseFeedForward_ok m d f = (Linear_ok (fc1 m) d f \<and> Linear_ok (fc2 m) f d)"

definition EncoderLayer_ok :: "EncoderLayer \<Rightarrow> nat \<Rightarrow> nat \<Rightarrow> nat \<Rightarrow> bool" where
  "EncoderLayer_ok m h k f =
     (MultiHeadAttention_ok (attention m) h k \<and> LayerNorm_ok (norm1 m) (h * k) \<and>
      PositionWiseFeedForward_ok (ffn m) (h * k) f \<and> LayerNorm_ok (norm2 m) (h * k))"

definition TransformerEncoder_ok :: "TransformerEncoder \<Rightarrow> nat \<Rightarrow> nat \<Rightarrow> nat \<Rightarrow> nat \<Rightarrow> nat \<Rightarrow> bool" where
  "TransformerEncoder_ok m p n d f c =
     (patch_size m = int p \<and> num_patches m = int n \<and> patch_dim m = int (3 * p * p) \<and>
      Linear_ok (patch_embedding m) (3 * p * p) d \<and>
      shape (pe (positional_encoding m)) = [1, n, d] \<and>
      (\<exists>h k. d = h * k \<and> list_all (\<lambda>l. EncoderLayer_ok l h k f) (encoder_layers m)) \<and>
      LayerNorm_ok (norm_ln m) d \<and> Linear_ok (fc m) d c)"

text \<open>What \<open>EncoderLayer(d_model, num_heads, d_ff)\<close> leaves behind, in the constructor's own integers.\<close>

definition EncoderLayer_made :: "EncoderLayer \<Rightarrow> int \<Rightarrow> int \<Rightarrow> int \<Rightarrow> bool" where
  "EncoderLayer_made l d h f =
     (num_heads (attention l) = h \<and> d_k (attention l) = d div h \<and>
      Linear_ok (q_linear (attention l)) (nat d) (nat d) \<and>
      Linear_ok (k_linear (attention l)) (nat d) (nat d) \<and>
      Linear_ok (v_linear (attention l)) (nat d) (nat d) \<and>
      Linear_ok (out_proj (attention l)) (nat d) (nat d) \<and>
      LayerNorm_ok (norm1 l) (nat d) \<and> PositionWiseFeedForward_ok (ffn l) (nat d) (nat f) \<and>
      LayerNorm_ok (norm2 l) (nat d))"

text \<open>The positional table in closed form, indexed [position, column].\<close>

definition pe_table :: "int \<Rightarrow> int \<Rightarrow> real tensor" where
  "pe_table d_model max_len =
     unsqueeze0 (tabulate [nat max_len, nat d_model]
       (\<lambda>idx. if even (idx ! 1)
               then sin (real (idx ! 0) * exp (real (idx ! 1) * (- ln 10000 / real_of_int d_model)))
               else cos (real (idx ! 0) * exp (real (idx ! 1 - 1) * (- ln 10000 / real_of_int d_model)))))"

text \<open>
  The patch sequence as the specification words it: patch \<open>n\<close> is the tile in row
  \<open>n div (W div p)\<close> and column \<open>n mod (W div p)\<close> of the tile grid, flattened channel by
  height by width.
\<close>

definition patchify_spec :: "nat \<Rightarrow> 'a tensor \<Rightarrow> 'a tensor" where
  "patchify_spec p images =
     (case shape images of
        [b, c, hh, ww] \<Rightarrow>
          tabulate [b, (hh div p) * (ww div p), c * p * p]
            (\<lambda>idx. let r = idx ! 1 div (ww div p); q = idx ! 1 mod (ww div p);
                        ch = idx ! 2 div (p * p); dy = idx ! 2 mod (p * p) div p; dx = idx ! 2 mod p
                    in get images [idx ! 0, ch, r * p + dy, q * p + dx])
      | _ \<Rightarrow> images)"

section \<open>Facts about tensors and the library operations\<close>

lemma offset_less: "valid_index shp idx \<Longrightarrow> offset shp idx < prod_list shp"
  unfolding valid_index_def
proof (induction idx shp rule: list_all2_induct)
  case Nil
  then show ?case by simp
next
  case (Cons i js n ns)
  have "i * prod_list ns + offset ns js < i * prod_list ns + prod_list ns"
    using Cons.IH by simp
  also have "\<dots> = Suc i * prod_list ns" by simp
  also have "\<dots> \<le> n * prod_list ns"
    using Cons.hyps(1) by (intro mult_le_mono1) simp
  finally show ?case by simp
qed

lemma unravel_offset: "valid_index shp idx \<Longrightarrow> unravel shp (offset shp idx) = idx"
  unfolding valid_index_def
proof (induction idx shp rule: list_all2_induct)
  case Nil
  then show ?case by simp
next
  case (Cons i js n ns)
  have lt: "offset ns js < prod_list ns"
    using Cons.hyps(2) offset_less by (simp add: valid_index_def)
  then show ?case using Cons.IH by simp
qed

lemma valid_unravel: "k < prod_list shp \<Longrightarrow> valid_index shp (unravel shp k)"
proof (induction shp arbitrary: k)
  case Nil
  then show ?case by (simp add: valid_index_def)
next
  case (Cons n ns)
  have pos: "0 < prod_list ns" using Cons.prems by (cases "prod_list ns") auto
  have "k div prod_list ns < n"
    using Cons.prems pos by (simp add: less_mult_imp_div_less mult.commute)
  moreover have "valid_index ns (unravel ns (k mod prod_list ns))"
    using Cons.IH pos by simp
  ultimately show ?case by (simp add: valid_index_def)
qed

lemma offset_unravel: "k < prod_list shp \<Longrightarrow> offset shp (unravel shp k) = k"
proof (induction shp arbitrary: k)
  case Nil
  then show ?case by simp
next
  case (Cons n ns)
  have pos: "0 < prod_list ns" using Cons.prems by (cases "prod_list ns") auto
  then show ?case using Cons.IH [of "k mod prod_list ns"] by simp
qed

lemma shape_tabulate [simp]: "shape (tabulate shp f) = shp"
  by (simp add: tabulate_def)

lemma wf_tabulate [simp]: "wf_tensor (tabulate shp f)"
  by (simp add: tabulate_def wf_tensor_def)

lemma get_tabulate: "valid_index shp idx \<Longrightarrow> get (tabulate shp f) idx = f idx"
  by (simp add: get_def tabulate_def offset_less unravel_offset)

lemma tensor_eqI:
  assumes "wf_tensor s" "wf_tensor t" "shape s = shape t"
    and "\<And>idx. valid_index (shape t) idx \<Longrightarrow> get s idx = get t idx"
  shows "s = t"
proof -
  have len: "length (data s) = length (data t)"
    using assms(1-3) by (simp add: wf_tensor_def)
  have "data s ! k = data t ! k" if "k < length (data t)" for k
  proof -
    have k: "k < prod_list (shape t)" using that assms(2) by (simp add: wf_tensor_def)
    have "get s (unravel (shape t) k) = get t (unravel (shape t) k)"
      using assms(4) valid_unravel [OF k] by blast
    then show ?thesis
      using offset_unravel [OF k] assms(3) by (simp add: get_def)
  qed
  then have "data s = data t" using len by (simp add: list_eq_iff_nth_eq)
  then show ?thesis using assms(3) by simp
qed

lemma r_bind_Inr [simp]: "r_bind (Inr v) f = f v"
  by (simp add: r_bind_def)

lemma r_bind_Inl [simp]: "r_bind (Inl e) f = Inl e"
  by (simp add: r_bind_def)

lemma broadcast_rev_same: "broadcast_rev s s = Some s"
  by (induction s) auto

lemma broadcast_shapes_same [simp]: "broadcast_shapes s s = Some s"
  by (simp add: broadcast_shapes_def broadcast_rev_same)

lemma valid_index_length: "valid_index shp idx \<Longrightarrow> length idx = length shp"
  by (simp add: valid_index_def list_all2_lengthD)

lemma bget_same: "valid_index (shape t) idx \<Longrightarrow> bget t idx = get t idx"
proof -
  assume v: "valid_index (shape t) idx"
  have "map2 (\<lambda>n i. if n = 1 then 0 else i) shp idx = idx" if "list_all2 (<) idx shp" for shp
    using that by (induction idx shp rule: list_all2_induct) auto
  then show ?thesis using v valid_index_length [OF v] by (simp add: bget_def valid_index_def)
qed

lemma add_same_shape:
  "shape x = shape y \<Longrightarrow> add x y = Inr (tabulate (shape x) (\<lambda>idx. bget x idx + bget y idx))"
  by (simp add: add_def binop_def)

lemma linear_ok:
  assumes "shape w = [n_out, n_in]" "shape b = [n_out]" "shape x = s @ [n_in]"
  shows "\<exists>y. linear x w b = Inr y \<and> shape y = s @ [n_out] \<and> wf_tensor y"
  using assms by (simp add: linear_def)

lemma layer_norm_ok:
  assumes "shape w = [d]" "shape b = [d]" "shape x = s @ [d]"
  shows "\<exists>y. layer_norm x w b eps = Inr y \<and> shape y = shape x \<and> wf_tensor y"
  using assms by (simp add: layer_norm_def)

lemma swap_12_4 [simp]: "swap (Suc 0) 2 [a, b, c, d] = [a, c, b, d]"
  by (simp add: swap_def)

lemma swap_23_4 [simp]: "swap 2 3 [a, b, c, d] = [a, b, d, c]"
  by (simp add: swap_def)

lemma transpose12_ok:
  assumes "shape t = [a, b, c, d]"
  shows "transpose_t t 1 2 = Inr (tabulate [a, c, b, d] (\<lambda>idx. get t (swap 1 2 idx)))"
  using assms by (simp add: transpose_t_def wrap_dim_def)

lemma transpose_last_ok:
  assumes "shape t = [a, b, c, d]"
  shows "transpose_t t (- 2) (- 1) = Inr (tabulate [a, b, d, c] (\<lambda>idx. get t (swap 2 3 idx)))"
  using assms by (simp add: transpose_t_def wrap_dim_def)

lemma matmul4_ok:
  assumes "shape x = [a, b, m, k]" "shape y = [a, b, k, n]"
  shows "\<exists>z. matmul x y = Inr z \<and> shape z = [a, b, m, n] \<and> wf_tensor z"
  using assms by (simp add: matmul_def Let_def wf_tensor_def tabulate_def)

lemma softmax_shape [simp]: "shape (softmax t) = shape t"
  by (simp add: softmax_def map_tensor_def)

lemma wf_softmax: "wf_tensor t \<Longrightarrow> wf_tensor (softmax t)"
  by (simp add: softmax_def map_tensor_def wf_tensor_def tabulate_def)

lemma shape_map_tensor [simp]: "shape (map_tensor f t) = shape t"
  by (simp add: map_tensor_def)

lemma wf_map_tensor [simp]: "wf_tensor (map_tensor f t) = wf_tensor t"
  by (simp add: map_tensor_def wf_tensor_def)

lemma view_split_ok:
  assumes "shape x = [b, l, h * k]" "0 < b" "0 < h" "0 < k"
  shows "view x [int b, - 1, int h, int k] = Inr \<lparr>shape = [b, l, h, k], data = data x\<rparr>"
proof -
  have kn: "int b * (int h * int k) \<noteq> 0" using assms by simp
  have "int (b * (l * (h * k))) = int l * (int b * (int h * int k))" by simp
  then have m: "int (b * (l * (h * k))) mod (int b * (int h * int k)) = 0"
    and d: "int (b * (l * (h * k))) div (int b * (int h * int k)) = int l"
    using kn by (simp_all del: of_nat_mult)
  show ?thesis using assms kn m d by (simp add: view_def Let_def del: of_nat_mult)
qed

lemma view_merge_ok:
  assumes "shape x = [b, l, h, k]" "0 < b" "0 < h" "0 < k"
  shows "view x [int b, - 1, int h * int k] = Inr \<lparr>shape = [b, l, h * k], data = data x\<rparr>"
proof -
  have kn: "int b * (int h * int k) \<noteq> 0" using assms by simp
  have "int (b * (l * (h * k))) = int l * (int b * (int h * int k))" by simp
  then have m: "int (b * (l * (h * k))) mod (int b * (int h * int k)) = 0"
    and d: "int (b * (l * (h * k))) div (int b * (int h * int k)) = int l"
    using kn by (simp_all del: of_nat_mult)
  have hk: "0 < int h * int k" using assms by simp
  have n1: "int h * int k \<noteq> - 1" "\<not> int h * int k < - 1" using hk by linarith+
  show ?thesis using assms kn m d n1 by (simp add: view_def Let_def nat_mult_distrib del: of_nat_mult)
qed

section \<open>Shapes through MultiHeadAttention\<close>

lemma Linear_forward_ok:
  assumes "Linear_ok l n_in n_out" "shape x = s @ [n_in]"
  shows "\<exists>y. Linear_forward l x = Inr y \<and> shape y = s @ [n_out] \<and> wf_tensor y"
  using assms linear_ok [of "weight l" n_out n_in "bias l" x s]
  by (simp add: Linear_forward_def Linear_ok_def)

lemma Linear_forward_ok3:
  assumes "Linear_ok l n_in n_out" "shape x = [a, b, n_in]"
  shows "\<exists>y. Linear_forward l x = Inr y \<and> shape y = [a, b, n_out] \<and> wf_tensor y"
  using Linear_forward_ok [OF assms(1), of x "[a, b]"] assms(2) by simp

lemma split_heads_ok:
  assumes "num_heads m = int h" "d_k m = int k" "0 < h" "0 < k"
    and "shape x = [b, l, h * k]" "0 < b"
  shows "\<exists>y. split_heads m b x = Inr y \<and> shape y = [b, h, l, k] \<and> wf_tensor y"
  using assms view_split_ok [of x b l h k]
  by (simp add: split_heads_def transpose12_ok)

lemma concat_heads_ok:
  assumes "num_heads m = int h" "d_k m = int k" "0 < h" "0 < k"
    and "shape x = [b, h, l, k]" "0 < b"
  shows "\<exists>y. concat_heads m b x = Inr y \<and> shape y = [b, l, h * k] \<and> wf_tensor y"
proof -
  let ?t = "tabulate [b, l, h, k] (\<lambda>idx. get x (swap 1 2 idx))"
  have "transpose_t x 1 2 = Inr ?t" using assms(5) by (rule transpose12_ok)
  moreover have "view ?t [int b, - 1, int h * int k] = Inr \<lparr>shape = [b, l, h * k], data = data ?t\<rparr>"
    using assms by (intro view_merge_ok) simp_all
  moreover have "wf_tensor \<lparr>shape = [b, l, h * k], data = data ?t\<rparr>"
    by (simp add: wf_tensor_def tabulate_def)
  ultimately show ?thesis using assms(1,2) by (simp add: concat_heads_def)
qed

lemma attention_weights_ok:
  assumes "0 \<le> d_k m" "shape Q = [b, h, l, k]" "shape K = [b, h, l', k]"
  shows "\<exists>w. attention_weights m Q K = Inr w \<and> shape w = [b, h, l, l'] \<and> wf_tensor w"
proof -
  let ?Kt = "tabulate [b, h, k, l'] (\<lambda>idx. get K (swap 2 3 idx))"
  have t: "transpose_t K (- 2) (- 1) = Inr ?Kt" using assms(3) by (rule transpose_last_ok)
  obtain qk where qk: "matmul Q ?Kt = Inr qk" "shape qk = [b, h, l, l']" "wf_tensor qk"
    using matmul4_ok [of Q b h l k ?Kt l'] assms(2) by auto
  show ?thesis using t qk assms(1) by (simp add: attention_weights_def wf_softmax)
qed

lemma scaled_dot_product_attention_ok:
  assumes "0 \<le> d_k m" "shape Q = [b, h, l, k]" "shape K = [b, h, l', k]" "shape V = [b, h, l', k']"
  shows "\<exists>y. scaled_dot_product_attention m Q K V = Inr y \<and> shape y = [b, h, l, k'] \<and> wf_tensor y"
proof -
  obtain w where w: "attention_weights m Q K = Inr w" "shape w = [b, h, l, l']"
    using attention_weights_ok [OF assms(1-3)] by auto
  show ?thesis using w matmul4_ok [of w b h l l' V k'] assms(4)
    by (simp add: scaled_dot_product_attention_def)
qed

lemma MultiHeadAttention_forward_ok:
  assumes ok: "MultiHeadAttention_ok m h k"
    and Q: "shape Q = [b, l, h * k]" and K: "shape K = [b, l', h * k]" and V: "shape V = [b, l', h * k]"
    and b: "0 < b"
  shows "\<exists>y. MultiHeadAttention_forward m Q K V = Inr y \<and> shape y = [b, l, h * k] \<and> wf_tensor y"
proof -
  have nh: "num_heads m = int h" "d_k m = int k" "0 < h" "0 < k"
    and lq: "Linear_ok (q_linear m) (h * k) (h * k)" and lk: "Linear_ok (k_linear m) (h * k) (h * k)"
    and lv: "Linear_ok (v_linear m) (h * k) (h * k)" and lo: "Linear_ok (out_proj m) (h * k) (h * k)"
    using ok by (simp_all add: MultiHeadAttention_ok_def)
  have sz: "size_at Q 0 = Inr b" using Q by (simp add: size_at_def)
  obtain q where q: "Linear_forward (q_linear m) Q = Inr q" "shape q = [b, l, h * k]"
    using Linear_forward_ok3 [OF lq Q] by auto
  obtain q' where q': "split_heads m b q = Inr q'" "shape q' = [b, h, l, k]"
    using split_heads_ok [OF nh q(2) b] by auto
  obtain kk where kk: "Linear_forward (k_linear m) K = Inr kk" "shape kk = [b, l', h * k]"
    using Linear_forward_ok3 [OF lk K] by auto
  obtain k' where k': "split_heads m b kk = Inr k'" "shape k' = [b, h, l', k]"
    using split_heads_ok [OF nh kk(2) b] by auto
  obtain v where v: "Linear_forward (v_linear m) V = Inr v" "shape v = [b, l', h * k]"
    using Linear_forward_ok3 [OF lv V] by auto
  obtain v' where v': "split_heads m b v = Inr v'" "shape v' = [b, h, l', k]"
    using split_heads_ok [OF nh v(2) b] by auto
  have dk: "0 \<le> d_k m" using nh by simp
  obtain out where out: "scaled_dot_product_attention m q' k' v' = Inr out" "shape out = [b, h, l, k]"
    using scaled_dot_product_attention_ok [OF dk q'(2) k'(2) v'(2)] by auto
  obtain cat where cat: "concat_heads m b out = Inr cat" "shape cat = [b, l, h * k]"
    using concat_heads_ok [OF nh out(2) b] by auto
  show ?thesis
    using sz q q' kk k' v v' out cat Linear_forward_ok3 [OF lo cat(2)]
    by (simp add: MultiHeadAttention_forward_def)
qed

section \<open>Shapes through EncoderLayer\<close>

lemma valid_index4:
  "valid_index [a, b, c, d] idx = (\<exists>i j k l. idx = [i, j, k, l] \<and> i < a \<and> j < b \<and> k < c \<and> l < d)"
  by (auto simp: valid_index_def list_all2_Cons2)

lemma valid_index3:
  "valid_index [a, b, c] idx = (\<exists>i j k. idx = [i, j, k] \<and> i < a \<and> j < b \<and> k < c)"
  by (auto simp: valid_index_def list_all2_Cons2)

lemma valid_index2:
  "valid_index [a, b] idx = (\<exists>i j. idx = [i, j] \<and> i < a \<and> j < b)"
  by (auto simp: valid_index_def list_all2_Cons2)

lemma concat_split_heads:
  assumes nh: "num_heads m = int h" "d_k m = int k" "0 < h" "0 < k"
    and x: "shape x = [b, l, h * k]" "wf_tensor x" and b: "0 < b"
  shows "r_bind (split_heads m b x) (concat_heads m b) = Inr x"
proof -
  let ?x' = "\<lparr>shape = [b, l, h, k], data = data x\<rparr>"
  let ?s = "tabulate [b, h, l, k] (\<lambda>idx. get ?x' (swap 1 2 idx))"
  let ?t = "tabulate [b, l, h, k] (\<lambda>idx. get ?s (swap 1 2 idx))"
  have wfx': "wf_tensor ?x'" using x by (simp add: wf_tensor_def)
  have split: "split_heads m b x = Inr ?s"
    using nh x(1) b view_split_ok [of x b l h k] by (simp add: split_heads_def transpose12_ok)
  have tr: "transpose_t ?s 1 2 = Inr ?t" by (rule transpose12_ok) simp
  have vw: "view ?t [int b, - 1, int h * int k] = Inr \<lparr>shape = [b, l, h * k], data = data ?t\<rparr>"
    using nh b by (intro view_merge_ok) simp_all
  have "?t = ?x'"
  proof (rule tensor_eqI)
    fix idx assume "valid_index (shape ?x') idx"
    then obtain i j c e where idx: "idx = [i, j, c, e]" "i < b" "j < l" "c < h" "e < k"
      by (auto simp: valid_index4)
    have "get ?t idx = get ?s (swap 1 2 idx)"
      using idx by (intro get_tabulate) (simp add: valid_index4)
    also have "\<dots> = get ?x' (swap 1 2 (swap 1 2 idx))"
      using idx by (intro get_tabulate) (simp add: valid_index4 swap_def)
    also have "swap 1 2 (swap 1 2 idx) = idx" using idx by (simp add: swap_def)
    finally show "get ?t idx = get ?x' idx" .
  qed (simp_all add: wfx')
  then have "data ?t = data x" by (metis tensor.select_convs(2))
  then have "\<lparr>shape = [b, l, h * k], data = data ?t\<rparr> = x" using x(1) by simp
  then show ?thesis using split tr vw nh by (simp add: concat_heads_def)
qed

lemma LayerNorm_forward_ok:
  assumes "LayerNorm_ok l d" "shape x = [a, b, d]"
  shows "\<exists>y. LayerNorm_forward l x = Inr y \<and> shape y = [a, b, d] \<and> wf_tensor y"
  using assms layer_norm_ok [of "ln_weight l" d "ln_bias l" x "[a, b]" "ln_eps l"]
  by (simp add: LayerNorm_forward_def LayerNorm_ok_def)

lemma shape_relu [simp]: "shape (relu t) = shape t"
  by (simp add: relu_def)

lemma PositionWiseFeedForward_forward_ok:
  assumes "PositionWiseFeedForward_ok m d f" "shape x = [a, b, d]"
  shows "\<exists>y. PositionWiseFeedForward_forward m x = Inr y \<and> shape y = [a, b, d] \<and> wf_tensor y"
proof -
  have l1: "Linear_ok (fc1 m) d f" and l2: "Linear_ok (fc2 m) f d"
    using assms(1) by (simp_all add: PositionWiseFeedForward_ok_def)
  obtain h where h: "Linear_forward (fc1 m) x = Inr h" "shape h = [a, b, f]"
    using Linear_forward_ok3 [OF l1 assms(2)] by auto
  have "shape (relu h) = [a, b, f]" using h by simp
  from Linear_forward_ok3 [OF l2 this] show ?thesis
    using h by (simp add: PositionWiseFeedForward_forward_def)
qed

lemma add_ok:
  assumes "shape x = s" "shape y = s"
  shows "\<exists>z. add x y = Inr z \<and> shape z = s \<and> wf_tensor z"
  using assms by (simp add: add_same_shape)

lemma EncoderLayer_forward_stages:
  assumes ok: "EncoderLayer_ok m h k f" and x: "shape x = [b, l, h * k]" and b: "0 < b"
  shows "\<exists>a s x1 ff s2 y.
           MultiHeadAttention_forward (attention m) x x x = Inr a \<and> shape a = shape x \<and>
           add x a = Inr s \<and> LayerNorm_forward (norm1 m) s = Inr x1 \<and> shape x1 = shape x \<and>
           PositionWiseFeedForward_forward (ffn m) x1 = Inr ff \<and> shape ff = shape x \<and>
           add x1 ff = Inr s2 \<and> LayerNorm_forward (norm2 m) s2 = Inr y \<and>
           EncoderLayer_forward m x = Inr y \<and> shape y = shape x \<and> wf_tensor y"
proof -
  have a_ok: "MultiHeadAttention_ok (attention m) h k" and n1: "LayerNorm_ok (norm1 m) (h * k)"
    and f_ok: "PositionWiseFeedForward_ok (ffn m) (h * k) f" and n2: "LayerNorm_ok (norm2 m) (h * k)"
    using ok by (simp_all add: EncoderLayer_ok_def)
  obtain a where a: "MultiHeadAttention_forward (attention m) x x x = Inr a" "shape a = [b, l, h * k]"
    using MultiHeadAttention_forward_ok [OF a_ok x x x b] by auto
  obtain s where s: "add x a = Inr s" "shape s = [b, l, h * k]"
    using add_ok [OF x a(2)] by auto
  obtain x1 where x1: "LayerNorm_forward (norm1 m) s = Inr x1" "shape x1 = [b, l, h * k]"
    using LayerNorm_forward_ok [OF n1 s(2)] by auto
  obtain ff where ff: "PositionWiseFeedForward_forward (ffn m) x1 = Inr ff" "shape ff = [b, l, h * k]"
    using PositionWiseFeedForward_forward_ok [OF f_ok x1(2)] by auto
  obtain s2 where s2: "add x1 ff = Inr s2" "shape s2 = [b, l, h * k]"
    using add_ok [OF x1(2) ff(2)] by auto
  obtain y where y: "LayerNorm_forward (norm2 m) s2 = Inr y" "shape y = [b, l, h * k]" "wf_tensor y"
    using LayerNorm_forward_ok [OF n2 s2(2)] by auto
  have "EncoderLayer_forward m x = Inr y"
    using a s x1 ff s2 y by (simp add: EncoderLayer_forward_def)
  then show ?thesis using a s x1 ff s2 y x by auto
qed

lemma run_layers_ok:
  assumes "list_all (\<lambda>m. EncoderLayer_ok m h k f) ls" "shape x = [b, l, h * k]" "0 < b" "wf_tensor x"
  shows "\<exists>y. run_layers ls x = Inr y \<and> shape y = [b, l, h * k] \<and> wf_tensor y"
  using assms
proof (induction ls arbitrary: x)
  case Nil
  then show ?case by simp
next
  case (Cons m ls)
  have ok: "EncoderLayer_ok m h k f" using Cons.prems(1) by simp
  obtain y where y: "EncoderLayer_forward m x = Inr y" "shape y = [b, l, h * k]" "wf_tensor y"
    using EncoderLayer_forward_stages [OF ok Cons.prems(2,3)] Cons.prems(2) by auto
  show ?case using Cons.IH [OF _ y(2) Cons.prems(3) y(3)] Cons.prems(1) y(1) by simp
qed

section \<open>Patch extraction and the forward pipeline\<close>

lemma view3_infer:
  assumes "0 < b" "0 < q"
  shows "view t [int b, - 1, int q] =
           (if b * q dvd prod_list (shape t)
            then Inr \<lparr>shape = [b, prod_list (shape t) div (b * q), q], data = data t\<rparr>
            else Inl RuntimeError)"
proof -
  let ?n = "prod_list (shape t)"
  have kn: "int b * int q = int (b * q)" by simp
  have nz: "int (b * q) \<noteq> 0" using assms by simp
  have m: "(int ?n mod int (b * q) = 0) = (b * q dvd ?n)"
    by (metis of_nat_mod of_nat_eq_0_iff mod_eq_0_iff_dvd)
  have d: "nat (int ?n div int (b * q)) = ?n div (b * q)"
    by (metis nat_int of_nat_div)
  show ?thesis
    unfolding view_def Let_def using nz m d
    by (simp add: kn del: of_nat_mult)
qed

lemma unfold_count: "0 < p \<Longrightarrow> p \<le> n \<Longrightarrow> Suc ((n - p) div p) = n div (p::nat)"
  by (simp add: le_div_geq)

lemma unfold2_ok:
  assumes "shape x = [b, c, hh, ww]" "0 < p" "p \<le> hh"
  shows "\<exists>u. unfold_t x 2 (int p) (int p) = Inr u \<and> shape u = [b, c, hh div p, ww, p] \<and> wf_tensor u"
  using assms by (simp add: unfold_t_def unfold_count)

lemma unfold3_ok:
  assumes "shape x = [b, c, nh, ww, q]" "0 < p" "p \<le> ww"
  shows "\<exists>u. unfold_t x 3 (int p) (int p) = Inr u \<and> shape u = [b, c, nh, ww div p, q, p] \<and> wf_tensor u"
  using assms by (simp add: unfold_t_def unfold_count)

lemma patch_count_dvd:
  assumes "0 < b" "0 < (p::nat)"
  shows "(b * (3 * p * p) dvd b * (c * (nh * (nw * (p * p))))) = (3 dvd c * nh * nw)"
    and "b * (c * (nh * (nw * (p * p)))) div (b * (3 * p * p)) = c * nh * nw div 3"
proof -
  have l: "b * (3 * p * p) = (b * p * p) * 3" by simp
  have r: "b * (c * (nh * (nw * (p * p)))) = (b * p * p) * (c * nh * nw)" by simp
  have nz: "b * p * p \<noteq> 0" using assms by simp
  show "(b * (3 * p * p) dvd b * (c * (nh * (nw * (p * p))))) = (3 dvd c * nh * nw)"
    unfolding l r using nz by (rule dvd_times_left_cancel_iff)
  show "b * (c * (nh * (nw * (p * p)))) div (b * (3 * p * p)) = c * nh * nw div 3"
    unfolding l r using nz by (rule div_mult_mult1)
qed

lemma patchify_cases:
  assumes ps: "patch_size m = int p" and pd: "patch_dim m = int (3 * p * p)" and p: "0 < p"
    and x: "shape x = [b, c, hh, ww]" and hw: "p \<le> hh" "p \<le> ww" and b: "0 < b"
  shows "3 dvd c * (hh div p) * (ww div p) \<Longrightarrow>
           \<exists>y. patchify m x = Inr y \<and> shape y = [b, c * (hh div p) * (ww div p) div 3, 3 * p * p] \<and> wf_tensor y"
    and "\<not> 3 dvd c * (hh div p) * (ww div p) \<Longrightarrow> patchify m x = Inl RuntimeError"
proof -
  obtain u where u: "unfold_t x 2 (int p) (int p) = Inr u" "shape u = [b, c, hh div p, ww, p]"
    using unfold2_ok [OF x p hw(1)] by auto
  obtain v where v: "unfold_t u 3 (int p) (int p) = Inr v"
    "shape v = [b, c, hh div p, ww div p, p, p]" "wf_tensor v"
    using unfold3_ok [OF u(2) p hw(2)] by auto
  have q: "0 < 3 * p * p" using p by simp
  have pf: "patchify m x = view v [int b, - 1, int (3 * p * p)]"
    using x u v ps pd by (simp add: patchify_def size_at_def)
  have pl: "prod_list (shape v) = b * (c * ((hh div p) * ((ww div p) * (p * p))))"
    using v(2) by simp
  note vw = view3_infer [OF b q, of v, unfolded pl patch_count_dvd [OF b p]]
  show "\<exists>y. patchify m x = Inr y \<and> shape y = [b, c * (hh div p) * (ww div p) div 3, 3 * p * p] \<and> wf_tensor y"
    if d: "3 dvd c * (hh div p) * (ww div p)"
  proof -
    have "b * (c * (hh div p) * (ww div p) div 3 * (3 * p * p)) = prod_list (shape v)"
      unfolding pl using d by (auto simp: dvd_def)
    then show ?thesis using d v(3) unfolding pf vw by (simp add: wf_tensor_def)
  qed
  show "patchify m x = Inl RuntimeError" if "\<not> 3 dvd c * (hh div p) * (ww div p)"
    using that unfolding pf vw by simp
qed

lemma broadcast_pe:
  "broadcast_shapes [b, l, d] [Suc 0, l', d] =
     (if l = l' \<or> l' = 1 then Some [b, l, d] else if l = 1 then Some [b, l', d] else None)"
  by (simp add: broadcast_shapes_def)

lemma PositionalEncoding_forward_cases:
  assumes pe: "shape (pe m) = [1, n, d]" and x: "shape x = [b, l, d]"
  shows "l \<le> n \<or> n = 1 \<Longrightarrow>
           \<exists>y. PositionalEncoding_forward m x = Inr y \<and> shape y = [b, l, d] \<and> wf_tensor y"
    and "n < l \<Longrightarrow> n \<noteq> 1 \<Longrightarrow> l \<noteq> 1 \<Longrightarrow> PositionalEncoding_forward m x = Inl RuntimeError"
proof -
  have sz: "size_at x 1 = Inr l" using x by (simp add: size_at_def)
  have sl: "slice_dim1 (pe m) l = Inr (tabulate [1, min l n, d] (get (pe m)))"
    using pe by (simp add: slice_dim1_def)
  have f: "PositionalEncoding_forward m x = add x (tabulate [1, min l n, d] (get (pe m)))"
    using sz sl by (simp add: PositionalEncoding_forward_def)
  show "\<exists>y. PositionalEncoding_forward m x = Inr y \<and> shape y = [b, l, d] \<and> wf_tensor y"
    if "l \<le> n \<or> n = 1"
    using that x unfolding f by (auto simp: add_def binop_def broadcast_pe min_def)
  show "PositionalEncoding_forward m x = Inl RuntimeError" if "n < l" "n \<noteq> 1" "l \<noteq> 1"
    using that x unfolding f by (auto simp: add_def binop_def broadcast_pe min_def)
qed

lemma mean_dim1_ok:
  assumes "shape x = [b, l, d]"
  shows "\<exists>y. mean_dim1 x = Inr y \<and> shape y = [b, d] \<and> wf_tensor y"
  using assms by (simp add: mean_dim1_def)

lemma Linear_forward_ok2:
  assumes "Linear_ok l n_in n_out" "shape x = [a, n_in]"
  shows "\<exists>y. Linear_forward l x = Inr y \<and> shape y = [a, n_out] \<and> wf_tensor y"
  using Linear_forward_ok [OF assms(1), of x "[a]"] assms(2) by simp

lemma forward_from_patches:
  assumes ok: "TransformerEncoder_ok m p n d f c"
    and x1: "shape x1 = [b, l, 3 * p * p]" and b: "0 < b" and l: "l \<le> n \<or> n = 1"
  shows "\<exists>x2 x3 x4 x5 x6 y.
           Linear_forward (patch_embedding m) x1 = Inr x2 \<and> shape x2 = [b, l, d] \<and>
           PositionalEncoding_forward (positional_encoding m) x2 = Inr x3 \<and> shape x3 = [b, l, d] \<and>
           run_layers (encoder_layers m) x3 = Inr x4 \<and> shape x4 = [b, l, d] \<and>
           LayerNorm_forward (norm_ln m) x4 = Inr x5 \<and> shape x5 = [b, l, d] \<and>
           mean_dim1 x5 = Inr x6 \<and> shape x6 = [b, d] \<and>
           Linear_forward (fc m) x6 = Inr y \<and> shape y = [b, c] \<and> wf_tensor y"
proof -
  have emb: "Linear_ok (patch_embedding m) (3 * p * p) d"
    and pe: "shape (pe (positional_encoding m)) = [1, n, d]"
    and nl: "LayerNorm_ok (norm_ln m) d" and cls: "Linear_ok (fc m) d c"
    using ok by (simp_all add: TransformerEncoder_ok_def)
  obtain h k where hk: "d = h * k" "list_all (\<lambda>l. EncoderLayer_ok l h k f) (encoder_layers m)"
    using ok by (auto simp: TransformerEncoder_ok_def)
  obtain x2 where x2: "Linear_forward (patch_embedding m) x1 = Inr x2" "shape x2 = [b, l, d]"
    using Linear_forward_ok3 [OF emb x1] by auto
  obtain x3 where x3: "PositionalEncoding_forward (positional_encoding m) x2 = Inr x3"
    "shape x3 = [b, l, d]" "wf_tensor x3"
    using PositionalEncoding_forward_cases(1) [OF pe x2(2) l] by auto
  obtain x4 where x4: "run_layers (encoder_layers m) x3 = Inr x4" "shape x4 = [b, l, d]"
    using run_layers_ok [OF hk(2) x3(2) [unfolded hk(1)] b x3(3)] hk(1) by auto
  obtain x5 where x5: "LayerNorm_forward (norm_ln m) x4 = Inr x5" "shape x5 = [b, l, d]"
    using LayerNorm_forward_ok [OF nl x4(2)] by auto
  obtain x6 where x6: "mean_dim1 x5 = Inr x6" "shape x6 = [b, d]"
    using mean_dim1_ok [OF x5(2)] by auto
  obtain y where y: "Linear_forward (fc m) x6 = Inr y" "shape y = [b, c]" "wf_tensor y"
    using Linear_forward_ok2 [OF cls x6(2)] by auto
  show ?thesis using x2 x3 x4 x5 x6 y by blast
qed

section \<open>What the constructors establish\<close>

lemma r_bind_InrE:
  assumes "r_bind m f = Inr y"
  obtains v where "m = Inr v" "f v = Inr y"
  using assms by (cases m) (auto simp: r_bind_def)

lemma Linear_init_InrD:
  "Linear_init i n g = Inr (l, g') \<Longrightarrow> 0 \<le> i \<and> 0 \<le> n \<and> Linear_ok l (nat i) (nat n)"
  by (auto simp: Linear_init_def draw_def Linear_ok_def split: if_splits)

lemma Linear_init_total: "0 \<le> i \<Longrightarrow> 0 \<le> n \<Longrightarrow> \<exists>r. Linear_init i n g = Inr r"
  by (simp add: Linear_init_def draw_def)

lemma LayerNorm_init_InrD: "LayerNorm_init d = Inr l \<Longrightarrow> 0 \<le> d \<and> LayerNorm_ok l (nat d)"
  by (auto simp: LayerNorm_init_def LayerNorm_ok_def split: if_splits)

lemma LayerNorm_init_total: "0 \<le> d \<Longrightarrow> \<exists>r. LayerNorm_init d = Inr r"
  by (simp add: LayerNorm_init_def)

lemma MultiHeadAttention_init_InrD:
  assumes "MultiHeadAttention_init d h g = Inr (a, g')"
  shows "h \<noteq> 0 \<and> d mod h = 0 \<and> 0 \<le> d \<and> num_heads a = h \<and> d_k a = d div h \<and>
         Linear_ok (q_linear a) (nat d) (nat d) \<and> Linear_ok (k_linear a) (nat d) (nat d) \<and>
         Linear_ok (v_linear a) (nat d) (nat d) \<and> Linear_ok (out_proj a) (nat d) (nat d)"
proof -
  have h: "h \<noteq> 0" "d mod h = 0"
    using assms by (auto simp: MultiHeadAttention_init_def split: if_splits)
  from assms h obtain q g1 k g2 v g3 p g4 where
    "Linear_init d d g = Inr (q, g1)" "Linear_init d d g1 = Inr (k, g2)"
    "Linear_init d d g2 = Inr (v, g3)" "Linear_init d d g3 = Inr (p, g4)"
    "a = \<lparr>num_heads = h, d_k = d div h, q_linear = q, k_linear = k, v_linear = v, out_proj = p\<rparr>"
    by (auto simp: MultiHeadAttention_init_def elim!: r_bind_InrE)
  then show ?thesis using h by (auto dest: Linear_init_InrD)
qed

lemma MultiHeadAttention_init_total:
  assumes "h \<noteq> 0" "d mod h = 0" "0 \<le> d"
  shows "\<exists>r. MultiHeadAttention_init d h g = Inr r"
proof -
  obtain q g1 where 1: "Linear_init d d g = Inr (q, g1)"
    using Linear_init_total [OF assms(3) assms(3), of g] by auto
  obtain k g2 where 2: "Linear_init d d g1 = Inr (k, g2)"
    using Linear_init_total [OF assms(3) assms(3), of g1] by auto
  obtain v g3 where 3: "Linear_init d d g2 = Inr (v, g3)"
    using Linear_init_total [OF assms(3) assms(3), of g2] by auto
  obtain p g4 where 4: "Linear_init d d g3 = Inr (p, g4)"
    using Linear_init_total [OF assms(3) assms(3), of g3] by auto
  show ?thesis using assms 1 2 3 4 by (simp add: MultiHeadAttention_init_def)
qed

lemma PositionWiseFeedForward_init_InrD:
  assumes "PositionWiseFeedForward_init d f g = Inr (m, g')"
  shows "0 \<le> d \<and> 0 \<le> f \<and> PositionWiseFeedForward_ok m (nat d) (nat f)"
proof -
  from assms obtain a g1 b where
    "Linear_init d f g = Inr (a, g1)" "Linear_init f d g1 = Inr (b, g')" "m = \<lparr>fc1 = a, fc2 = b\<rparr>"
    by (auto simp: PositionWiseFeedForward_init_def elim!: r_bind_InrE)
  then show ?thesis by (auto simp: PositionWiseFeedForward_ok_def dest: Linear_init_InrD)
qed

lemma PositionWiseFeedForward_init_total:
  assumes "0 \<le> d" "0 \<le> f"
  shows "\<exists>r. PositionWiseFeedForward_init d f g = Inr r"
proof -
  obtain a g1 where 1: "Linear_init d f g = Inr (a, g1)"
    using Linear_init_total [OF assms, of g] by auto
  obtain b g2 where 2: "Linear_init f d g1 = Inr (b, g2)"
    using Linear_init_total [OF assms(2,1), of g1] by auto
  show ?thesis using 1 2 by (simp add: PositionWiseFeedForward_init_def)
qed

lemma EncoderLayer_init_InrD:
  assumes "EncoderLayer_init d h f g = Inr (l, g')"
  shows "h \<noteq> 0 \<and> d mod h = 0 \<and> 0 \<le> d \<and> 0 \<le> f \<and> EncoderLayer_made l d h f"
proof -
  from assms obtain a g1 n1 ff n2 where
    "MultiHeadAttention_init d h g = Inr (a, g1)" "LayerNorm_init d = Inr n1"
    "PositionWiseFeedForward_init d f g1 = Inr (ff, g')" "LayerNorm_init d = Inr n2"
    "l = \<lparr>attention = a, norm1 = n1, ffn = ff, norm2 = n2\<rparr>"
    by (auto simp: EncoderLayer_init_def elim!: r_bind_InrE)
  then show ?thesis
    using MultiHeadAttention_init_InrD [of d h g a g1] PositionWiseFeedForward_init_InrD [of d f g1 ff g']
    by (auto simp: EncoderLayer_made_def dest: LayerNorm_init_InrD)
qed

lemma EncoderLayer_init_total:
  assumes "h \<noteq> 0" "d mod h = 0" "0 \<le> d" "0 \<le> f"
  shows "\<exists>r. EncoderLayer_init d h f g = Inr r"
proof -
  obtain a g1 where 1: "MultiHeadAttention_init d h g = Inr (a, g1)"
    using MultiHeadAttention_init_total [OF assms(1-3), of g] by auto
  obtain n1 where 2: "LayerNorm_init d = Inr n1"
    using LayerNorm_init_total [OF assms(3)] by auto
  obtain ff g2 where 3: "PositionWiseFeedForward_init d f g1 = Inr (ff, g2)"
    using PositionWiseFeedForward_init_total [OF assms(3,4), of g1] by auto
  show ?thesis using 1 2 3 by (simp add: EncoderLayer_init_def)
qed

lemma make_layers_InrD:
  "make_layers n d h f g = Inr (ls, g') \<Longrightarrow>
     length ls = n \<and> list_all (\<lambda>l. EncoderLayer_made l d h f) ls \<and>
     (0 < n \<longrightarrow> h \<noteq> 0 \<and> d mod h = 0 \<and> 0 \<le> d \<and> 0 \<le> f)"
proof (induction n arbitrary: g ls)
  case 0
  then show ?case by simp
next
  case (Suc n)
  from Suc.prems obtain l g1 ls' where
    l: "EncoderLayer_init d h f g = Inr (l, g1)" and r: "make_layers n d h f g1 = Inr (ls', g')"
    and ls: "ls = l # ls'"
    by (auto elim!: r_bind_InrE)
  show ?case using EncoderLayer_init_InrD [OF l] Suc.IH [OF r] ls by simp
qed

lemma make_layers_total:
  assumes "n = 0 \<or> (h \<noteq> 0 \<and> d mod h = 0 \<and> 0 \<le> d \<and> 0 \<le> f)"
  shows "\<exists>r. make_layers n d h f g = Inr r"
  using assms
proof (induction n arbitrary: g)
  case 0
  then show ?case by simp
next
  case (Suc n)
  then have c: "h \<noteq> 0" "d mod h = 0" "0 \<le> d" "0 \<le> f" by simp_all
  obtain l g1 where l: "EncoderLayer_init d h f g = Inr (l, g1)"
    using EncoderLayer_init_total [OF c, of g] by auto
  obtain ls g2 where r: "make_layers n d h f g1 = Inr (ls, g2)"
    using Suc.IH [of g1] c by auto
  show ?case using l r by simp
qed

lemma EncoderLayer_made_ok:
  assumes "EncoderLayer_made l d h f" "0 < h" "0 < d" "d mod h = 0"
  shows "EncoderLayer_ok l (nat h) (nat (d div h)) (nat f)"
proof -
  have dh: "d = h * (d div h)" using assms(4) by (simp add: mod_eq_0_iff_dvd)
  have kpos: "0 < d div h" using assms(2,3) dh by (metis zero_less_mult_pos)
  have nd: "nat h * nat (d div h) = nat d"
    using dh assms(2) kpos by (metis nat_mult_distrib less_imp_le)
  show ?thesis
    using assms(1,2) kpos
    by (simp add: EncoderLayer_made_def EncoderLayer_ok_def MultiHeadAttention_ok_def nd)
qed

section \<open>The positional table in closed form\<close>

lemma tabulate_cong:
  assumes "\<And>idx. valid_index shp idx \<Longrightarrow> f idx = g idx"
  shows "tabulate shp f = tabulate shp g"
  using assms by (simp add: tabulate_def valid_unravel)

lemma get_map_tensor:
  "wf_tensor t \<Longrightarrow> valid_index (shape t) idx \<Longrightarrow> get (map_tensor f t) idx = f (get t idx)"
  by (simp add: get_def map_tensor_def wf_tensor_def offset_less)

lemma broadcast_col_row: "broadcast_shapes [a, Suc 0] [c] = Some [a, c]"
  by (simp add: broadcast_shapes_def)

lemma broadcast_cols:
  "broadcast_shapes [a, x] [a, y] =
     (if x = y \<or> y = 1 then Some [a, x] else if x = 1 then Some [a, y] else None)"
  by (simp add: broadcast_shapes_def)

lemma setitem_cols_eq:
  assumes "shape dst = [rows, cols]" "0 < step"
  shows "setitem_cols dst start step src =
           (if broadcast_shapes (shape src) [rows, selected_cols cols start step]
                 = Some [rows, selected_cols cols start step]
            then Inr (tabulate [rows, cols]
                   (\<lambda>idx. if start \<le> idx ! 1 \<and> (idx ! 1 - start) mod step = 0
                           then bget src [idx ! 0, (idx ! 1 - start) div step]
                           else get dst idx))
            else Inl RuntimeError)"
  using assms by (simp add: setitem_cols_def)

lemma PositionalEncoding_init_eq:
  assumes n: "0 \<le> n" and d: "0 < d"
  shows "PositionalEncoding_init d n =
           (if even d \<or> d = 1 then Inr \<lparr>pe = pe_table d n\<rparr> else Inl RuntimeError)"
proof -
  define N D c where NDc: "N = nat n" "D = nat d" "c = (nat d + 1) div 2"
  define pe0 where "pe0 = \<lparr>shape = [N, D], data = replicate (N * D) (0::real)\<rparr>"
  define position where
    "position = \<lparr>shape = [N, 1], data = map (\<lambda>k. real_of_int (0 + int k * 1)) [0..<N]\<rparr>"
  define evens where
    "evens = \<lparr>shape = [c], data = map (\<lambda>k. real_of_int (0 + int k * 2)) [0..<c]\<rparr>"
  define dt where "dt = div_term d evens"
  define ang where "ang = tabulate [N, c] (\<lambda>idx. bget position idx * bget dt idx)"
  define pe1 where "pe1 = tabulate [N, D]
     (\<lambda>idx. if 0 \<le> idx ! 1 \<and> (idx ! 1 - 0) mod 2 = 0
            then bget (map_tensor sin ang) [idx ! 0, (idx ! 1 - 0) div 2] else get pe0 idx)"
  define pe2 where "pe2 = tabulate [N, D]
     (\<lambda>idx. if 1 \<le> idx ! 1 \<and> (idx ! 1 - 1) mod 2 = 0
            then bget (map_tensor cos ang) [idx ! 0, (idx ! 1 - 1) div 2] else get pe1 idx)"
  have cc: "nat ((1 + d) div 2) = c"
    using d by (simp add: NDc nat_div_distrib nat_add_distrib)
  have z: "zeros [n, d] = Inr pe0"
    using n d by (simp add: zeros_def pe0_def NDc)
  have a1: "r_bind (arange 0 n 1) unsqueeze1 = Inr position"
    using n by (simp add: arange_def unsqueeze1_def position_def NDc Let_def)
  have a2: "arange 0 d 2 = Inr evens"
    using d cc by (simp add: arange_def evens_def Let_def)
  have m: "mul position dt = Inr ang"
    by (simp add: mul_def binop_def position_def dt_def div_term_def evens_def ang_def
        broadcast_col_row)
  have sang: "shape ang = [N, c]" "wf_tensor ang" by (simp_all add: ang_def)
  have sel0: "selected_cols D 0 2 = c" by (simp add: selected_cols_def NDc)
  have sel1: "selected_cols D 1 2 = D div 2" using d by (simp add: selected_cols_def NDc)
  have sp0: "shape pe0 = [N, D]" by (simp add: pe0_def)
  have sp1: "shape pe1 = [N, D]" by (simp add: pe1_def)
  have s0: "setitem_cols pe0 0 2 (map_tensor sin ang) = Inr pe1"
    unfolding pe1_def setitem_cols_eq [OF sp0 zero_less_numeral] sel0 by (simp add: sang)
  have s1: "setitem_cols pe1 1 2 (map_tensor cos ang) =
              (if c = D div 2 \<or> c = 1 then Inr pe2 else Inl RuntimeError)"
    unfolding pe2_def setitem_cols_eq [OF sp1 zero_less_numeral] sel1
    by (simp add: sang broadcast_cols del: One_nat_def)
  have ok_iff: "(c = D div 2 \<or> c = 1) = (even d \<or> d = 1)"
  proof -
    have "even d = even D" using d by (simp add: NDc even_nat_iff)
    moreover have "(d = 1) = (D = 1)" using d by (auto simp: NDc)
    moreover have "0 < x \<Longrightarrow> ((x + 1) div 2 = x div 2 \<or> (x + 1) div 2 = 1) = (even x \<or> x = 1)"
      for x :: nat by presburger
    from this [of "nat d"] have "(c = D div 2 \<or> c = 1) = (even D \<or> D = 1)"
      using d unfolding NDc by simp
    ultimately show ?thesis by simp
  qed
  have init: "PositionalEncoding_init d n =
      (if even d \<or> d = 1 then Inr \<lparr>pe = unsqueeze0 pe2\<rparr> else Inl RuntimeError)"
  proof -
    have "PositionalEncoding_init d n =
        r_bind (r_bind (arange 0 n 1) unsqueeze1) (\<lambda>position.
        r_bind (arange 0 d 2) (\<lambda>evens.
        r_bind (mul position (div_term d evens)) (\<lambda>a0.
        r_bind (setitem_cols pe0 0 2 (map_tensor sin a0)) (\<lambda>pe1.
        r_bind (mul position (div_term d evens)) (\<lambda>a1.
        r_bind (setitem_cols pe1 1 2 (map_tensor cos a1)) (\<lambda>pe2.
        Inr \<lparr>pe = unsqueeze0 pe2\<rparr>))))))"
      using d z by (cases "arange 0 n 1") (simp_all add: PositionalEncoding_init_def)
    also have "\<dots> = r_bind (setitem_cols pe1 1 2 (map_tensor cos ang)) (\<lambda>pe2. Inr \<lparr>pe = unsqueeze0 pe2\<rparr>)"
      using a1 a2 m s0 by (simp add: dt_def)
    finally show ?thesis using s1 ok_iff by simp
  qed
  have tab: "pe2 = tabulate [N, D]
       (\<lambda>idx. if even (idx ! 1)
               then sin (real (idx ! 0) * exp (real (idx ! 1) * (- ln 10000 / real_of_int d)))
               else cos (real (idx ! 0) * exp (real (idx ! 1 - 1) * (- ln 10000 / real_of_int d))))"
    if good: "even d \<or> d = 1"
    unfolding pe2_def
  proof (rule tabulate_cong)
    fix idx assume "valid_index [N, D] idx"
    then obtain i j where idx: "idx = [i, j]" "i < N" "j < D" by (auto simp: valid_index2)
    have angv: "get ang [i, jj] = real i * exp (real (2 * jj) * (- ln 10000 / real_of_int d))"
      if "jj < c" for jj
    proof -
      have "get ang [i, jj] = bget position [i, jj] * bget dt [i, jj]"
        unfolding ang_def using idx that by (intro get_tabulate) (simp add: valid_index2)
      moreover have "bget position [i, jj] = real i"
        using idx by (simp add: bget_def position_def get_def)
      moreover have "bget dt [i, jj] = exp (real (2 * jj) * (- ln 10000 / real_of_int d))"
        using that by (simp add: bget_def dt_def div_term_def evens_def get_def map_tensor_def mult.commute)
      ultimately show ?thesis by simp
    qed
    have bsin: "bget (map_tensor sin ang) [i, jj] = sin (get ang [i, jj])"
      and bcos: "bget (map_tensor cos ang) [i, jj] = cos (get ang [i, jj])" if "jj < c" for jj
      using that idx sang by (simp_all add: bget_same get_map_tensor valid_index2)
    have De: "even D \<or> D = 1" using good d ok_iff
      by (metis NDc(2) even_nat_iff less_imp_le nat_one_as_int nat_int of_nat_1 int_nat_eq)
    show "(if 1 \<le> idx ! 1 \<and> (idx ! 1 - 1) mod 2 = 0
            then bget (map_tensor cos ang) [idx ! 0, (idx ! 1 - 1) div 2] else get pe1 idx) =
          (if even (idx ! 1)
            then sin (real (idx ! 0) * exp (real (idx ! 1) * (- ln 10000 / real_of_int d)))
            else cos (real (idx ! 0) * exp (real (idx ! 1 - 1) * (- ln 10000 / real_of_int d))))"
    proof (cases "even j")
      case True
      then have nb: "\<not> (1 \<le> j \<and> (j - 1) mod 2 = 0)" by (cases j) (auto simp: mod_2_eq_odd)
      have jc: "j div 2 < c" using idx(3) True unfolding NDc by (auto elim!: evenE)
      have "get pe1 [i, j] = bget (map_tensor sin ang) [i, j div 2]"
        unfolding pe1_def using idx True
        by (subst get_tabulate) (simp_all add: valid_index2 mod_2_eq_odd)
      then show ?thesis using True nb idx bsin [OF jc] angv [OF jc] by auto
    next
      case False
      then have b: "1 \<le> j \<and> (j - 1) mod 2 = 0" by (cases j) (auto simp: mod_2_eq_odd)
      have "even D" using De idx(3) False by (cases "D = 1") auto
      then have jc: "(j - 1) div 2 < c" using idx(3) False unfolding NDc by (auto elim!: evenE oddE)
      have "2 * ((j - 1) div 2) = j - 1" using False by (auto elim!: oddE)
      then show ?thesis using False b idx bcos [OF jc] angv [OF jc] by auto
    qed
  qed
  show ?thesis using init tab by (auto simp: pe_table_def NDc)
qed

section \<open>Construction of the TransformerEncoder\<close>

lemma PositionalEncoding_init_cases:
  "PositionalEncoding_init d n =
     (if n < 0 \<or> d < 0 then Inl RuntimeError
      else if d = 0 then Inl ZeroDivisionError
      else if even d \<or> d = 1 then Inr \<lparr>pe = pe_table d n\<rparr>
      else Inl RuntimeError)"
proof -
  consider "n < 0 \<or> d < 0" | "0 \<le> n" "d = 0" | "0 \<le> n" "0 < d" by linarith
  then show ?thesis
  proof cases
    case 1
    then show ?thesis by (auto simp: PositionalEncoding_init_def zeros_def)
  next
    case 2
    then show ?thesis
      by (simp add: PositionalEncoding_init_def zeros_def arange_def unsqueeze1_def Let_def)
  next
    case 3
    then show ?thesis using PositionalEncoding_init_eq [of n d] by simp
  qed
qed

lemma shape_pe_table [simp]: "shape (pe_table d n) = [1, nat n, nat d]"
  by (simp add: pe_table_def unsqueeze0_def)

lemma wf_pe_table [simp]: "wf_tensor (pe_table d n)"
  by (simp add: pe_table_def unsqueeze0_def wf_tensor_def tabulate_def)

lemma PositionalEncoding_init_InrD:
  "PositionalEncoding_init d n = Inr m \<Longrightarrow>
     0 \<le> n \<and> 0 < d \<and> (even d \<or> d = 1) \<and> m = \<lparr>pe = pe_table d n\<rparr>"
  unfolding PositionalEncoding_init_cases by (auto split: if_splits)

lemma TransformerEncoder_init_InrD:
  assumes "TransformerEncoder_init img p d h L f c g = Inr (m, g')"
  shows "p \<noteq> 0 \<and> 0 < d \<and> (even d \<or> d = 1) \<and> 0 \<le> c \<and>
         patch_size m = p \<and> num_patches m = (img div p)\<^sup>2 \<and> patch_dim m = 3 * p * p \<and>
         Linear_ok (patch_embedding m) (nat (3 * p * p)) (nat d) \<and>
         positional_encoding m = \<lparr>pe = pe_table d ((img div p)\<^sup>2)\<rparr> \<and>
         length (encoder_layers m) = nat L \<and>
         list_all (\<lambda>l. EncoderLayer_made l d h f) (encoder_layers m) \<and>
         (0 < L \<longrightarrow> h \<noteq> 0 \<and> d mod h = 0 \<and> 0 \<le> f) \<and>
         LayerNorm_ok (norm_ln m) (nat d) \<and> Linear_ok (fc m) (nat d) (nat c)"
proof -
  have p: "p \<noteq> 0" using assms by (auto simp: TransformerEncoder_init_def split: if_splits)
  from assms p obtain emb g1 posenc layers g2 nrm cls where
    e: "Linear_init (3 * p * p) d g = Inr (emb, g1)"
    and pe: "PositionalEncoding_init d ((img div p)\<^sup>2) = Inr posenc"
    and ls: "make_layers (nat L) d h f g1 = Inr (layers, g2)"
    and n: "LayerNorm_init d = Inr nrm"
    and c: "Linear_init d c g2 = Inr (cls, g')"
    and m: "m = \<lparr>patch_size = p, num_patches = (img div p)\<^sup>2, patch_dim = 3 * p * p,
               patch_embedding = emb, positional_encoding = posenc,
               encoder_layers = layers, norm_ln = nrm, fc = cls\<rparr>"
    by (auto simp: TransformerEncoder_init_def Let_def elim!: r_bind_InrE)
  show ?thesis
    using p m Linear_init_InrD [OF e] PositionalEncoding_init_InrD [OF pe]
      make_layers_InrD [OF ls] LayerNorm_init_InrD [OF n] Linear_init_InrD [OF c]
    by simp
qed

lemma TransformerEncoder_init_total:
  assumes "p \<noteq> 0" "0 < d" "even d \<or> d = 1"
    and "L \<le> 0 \<or> (h \<noteq> 0 \<and> d mod h = 0 \<and> 0 \<le> f)" "0 \<le> c"
  shows "\<exists>r. TransformerEncoder_init img p d h L f c g = Inr r"
proof -
  have pd: "0 \<le> 3 * p * p" by simp
  have d0: "0 \<le> d" using assms(2) by simp
  obtain emb g1 where e: "Linear_init (3 * p * p) d g = Inr (emb, g1)"
    using Linear_init_total [OF pd d0, of g] by auto
  have pe: "PositionalEncoding_init d ((img div p)\<^sup>2) = Inr \<lparr>pe = pe_table d ((img div p)\<^sup>2)\<rparr>"
    using assms(2,3) by (simp add: PositionalEncoding_init_cases)
  have "nat L = 0 \<or> (h \<noteq> 0 \<and> d mod h = 0 \<and> 0 \<le> d \<and> 0 \<le> f)"
    using assms(4) d0 by auto
  then obtain layers g2 where ls: "make_layers (nat L) d h f g1 = Inr (layers, g2)"
    using make_layers_total [of "nat L" h d f g1] by auto
  obtain nrm where n: "LayerNorm_init d = Inr nrm"
    using LayerNorm_init_total [OF d0] by auto
  obtain cls g3 where c: "Linear_init d c g2 = Inr (cls, g3)"
    using Linear_init_total [OF d0 assms(5), of g2] by auto
  show ?thesis using assms(1) e pe ls n c by (simp add: TransformerEncoder_init_def Let_def)
qed

lemma TransformerEncoder_init_ok:
  assumes init: "TransformerEncoder_init img p d h L f c g = Inr (m, g')"
    and p: "0 < p" and h: "0 < h \<or> L \<le> 0"
  shows "TransformerEncoder_ok m (nat p) (nat ((img div p)\<^sup>2)) (nat d) (nat f) (nat c)"
proof -
  note D = TransformerEncoder_init_InrD [OF init]
  have d: "0 < d" using D by simp
  have pd: "int (3 * nat p * nat p) = 3 * p * p" "nat (3 * p * p) = 3 * nat p * nat p"
    using p by (simp_all add: nat_mult_distrib)
  have layers: "\<exists>hh k. nat d = hh * k \<and> list_all (\<lambda>l. EncoderLayer_ok l hh k (nat f)) (encoder_layers m)"
  proof (cases "L \<le> 0")
    case True
    then have "encoder_layers m = []" using D by simp
    then show ?thesis by (intro exI [of _ "nat d"] exI [of _ 1]) simp
  next
    case False
    then have hp: "0 < h" "d mod h = 0" using h D by auto
    have dh: "d = h * (d div h)" using hp(2) by (simp add: mod_eq_0_iff_dvd)
    have kpos: "0 < d div h" using hp(1) d dh by (metis zero_less_mult_pos)
    have nd: "nat d = nat h * nat (d div h)"
      using dh hp(1) kpos by (metis nat_mult_distrib less_imp_le)
    have "list_all (\<lambda>l. EncoderLayer_ok l (nat h) (nat (d div h)) (nat f)) (encoder_layers m)"
      using D hp d by (auto simp: list_all_iff intro: EncoderLayer_made_ok)
    then show ?thesis using nd by blast
  qed
  show ?thesis
    unfolding TransformerEncoder_ok_def using D p pd layers by simp
qed

section \<open>Patch counts and the mean over positions\<close>

lemma nat_patches: "nat ((int i div int p)\<^sup>2) = (i div p)\<^sup>2"
proof -
  have "(int i div int p)\<^sup>2 = int ((i div p)\<^sup>2)" by (simp add: zdiv_int)
  then show ?thesis by (metis nat_int)
qed

lemma mean_dim1_get:
  assumes "shape x = [b, l, d]" "i < b" "j < d"
  shows "\<exists>y. mean_dim1 x = Inr y \<and> get y [i, j] = (\<Sum>n\<leftarrow>[0..<l]. get x [i, n, j]) / real l"
proof -
  have "get (tabulate [b, d]
           (\<lambda>idx. (\<Sum>c\<leftarrow>[0..<l]. get x (take 1 idx @ [c] @ drop 1 idx)) / real l)) [i, j]
        = (\<Sum>c\<leftarrow>[0..<l]. get x (take 1 [i, j] @ [c] @ drop 1 [i, j])) / real l"
    using assms by (intro get_tabulate) (simp add: valid_index2)
  then show ?thesis using assms(1) by (simp add: mean_dim1_def)
qed

section \<open>Attention and encoder layer\<close>

lemma add_get:
  assumes "shape x = shape y" "add x y = Inr s" "valid_index (shape x) idx"
  shows "get s idx = get x idx + get y idx"
proof -
  have "s = tabulate (shape x) (\<lambda>idx. bget x idx + bget y idx)"
    using assms(1,2) by (simp add: add_same_shape)
  then show ?thesis
    using assms(1,3) by (simp add: get_tabulate bget_same)
qed

lemma MultiHeadAttention_init_ok:
  assumes init: "MultiHeadAttention_init (int d) (int h) g = Inr (m, g')" and h: "0 < h" and d: "0 < d"
  shows "MultiHeadAttention_ok m h (d div h) \<and> h * (d div h) = d"
proof -
  note D = MultiHeadAttention_init_InrD [OF init]
  have "int d mod int h = 0" using D by simp
  then have "d mod h = 0" by (metis of_nat_mod of_nat_eq_0_iff)
  then have dh: "h * (d div h) = d" by (simp add: mod_eq_0_iff_dvd)
  have k: "0 < d div h" using d dh by (cases "d div h") auto
  have "d_k m = int (d div h)" using D by (simp add: zdiv_int)
  then show ?thesis using D h k dh by (simp add: MultiHeadAttention_ok_def)
qed

text \<open>
  C7. For a constructed attention module (d_model divisible by num_heads) and Q, K, V of
  shape [B, L, d_model] with B > 0, \<open>forward\<close> returns a tensor of the shape of Q; and
  concatenating the heads undoes the split into heads: a tensor of shape [B, L, d_model]
  split into [B, num_heads, L, d_k] and concatenated again is the tensor itself.
\<close>

theorem MultiHeadAttention_forward_shape:
  assumes init: "MultiHeadAttention_init (int d_model) (int h) g = Inr (m, g')"
    and h: "0 < h" and d: "0 < d_model"
    and Q: "shape Q = [b, l, d_model]" and K: "shape K = [b, l, d_model]"
    and V: "shape V = [b, l, d_model]" and b: "0 < b"
    and t: "shape t = [b, l, d_model]" "wf_tensor t"
  shows "(\<exists>y. MultiHeadAttention_forward m Q K V = Inr y \<and> shape y = shape Q) \<and>
         (\<exists>s. split_heads m b t = Inr s \<and> shape s = [b, h, l, d_model div h] \<and>
              concat_heads m b s = Inr t)"
proof -
  let ?k = "d_model div h"
  have ok: "MultiHeadAttention_ok m h ?k" and dh: "h * ?k = d_model"
    using MultiHeadAttention_init_ok [OF init h d] by simp_all
  have nh: "num_heads m = int h" "d_k m = int ?k" "0 < h" "0 < ?k"
    using ok by (simp_all add: MultiHeadAttention_ok_def)
  have Q': "shape Q = [b, l, h * ?k]" and K': "shape K = [b, l, h * ?k]"
    and V': "shape V = [b, l, h * ?k]" and t': "shape t = [b, l, h * ?k]"
    using Q K V t(1) dh by simp_all
  have fw: "\<exists>y. MultiHeadAttention_forward m Q K V = Inr y \<and> shape y = shape Q"
    using MultiHeadAttention_forward_ok [OF ok Q' K' V' b] Q' by auto
  obtain s where s: "split_heads m b t = Inr s" "shape s = [b, h, l, ?k]"
    using split_heads_ok [OF nh t' b] by auto
  have "concat_heads m b s = Inr t"
    using concat_split_heads [OF nh t' t(2) b] s(1) by simp
  then show ?thesis using fw s by blast
qed

theorem MultiHeadAttention_forward_shape_witness:
  "\<exists>m g' y s. MultiHeadAttention_init 4 2 (\<lambda>_. 0) = Inr (m, g') \<and>
     MultiHeadAttention_forward m \<lparr>shape = [1, 3, 4], data = replicate 12 0\<rparr>
       \<lparr>shape = [1, 3, 4], data = replicate 12 0\<rparr> \<lparr>shape = [1, 3, 4], data = replicate 12 0\<rparr> = Inr y \<and>
     shape y = [1, 3, 4] \<and>
     split_heads m 1 \<lparr>shape = [1, 3, 4], data = replicate 12 0\<rparr> = Inr s \<and> shape s = [1, 2, 3, 2] \<and>
     concat_heads m 1 s = Inr \<lparr>shape = [1, 3, 4], data = replicate 12 0\<rparr>"
proof -
  let ?x = "\<lparr>shape = [1, 3, 4], data = replicate 12 (0::real)\<rparr>"
  obtain m g' where init: "MultiHeadAttention_init 4 2 (\<lambda>_. 0) = Inr (m, g')"
    using MultiHeadAttention_init_total [of 2 4 "\<lambda>_. 0"] by auto
  have init': "MultiHeadAttention_init (int 4) (int 2) (\<lambda>_. 0) = Inr (m, g')"
    using init by simp
  have x: "shape ?x = [1, 3, 4]" "wf_tensor ?x" by (simp_all add: wf_tensor_def)
  show ?thesis
    using MultiHeadAttention_forward_shape [OF init' _ _ x(1) x(1) x(1) _ x] init by auto
qed

lemma EncoderLayer_init_ok:
  assumes init: "EncoderLayer_init (int d) (int h) (int f) g = Inr (m, g')" and h: "0 < h" and d: "0 < d"
  shows "EncoderLayer_ok m h (d div h) f \<and> h * (d div h) = d"
proof -
  note D = EncoderLayer_init_InrD [OF init]
  have md: "int d mod int h = 0" using D by simp
  then have "d mod h = 0" by (metis of_nat_mod of_nat_eq_0_iff)
  then have dh: "h * (d div h) = d" by (simp add: mod_eq_0_iff_dvd)
  have "EncoderLayer_ok m (nat (int h)) (nat (int d div int h)) (nat (int f))"
    using D h d md by (intro EncoderLayer_made_ok) simp_all
  then show ?thesis using dh by (simp add: nat_div_distrib)
qed

text \<open>
  C5. For a constructed encoder layer and an input x of shape [B, L, d_model] with B > 0,
  \<open>forward\<close> is two stages in sequence, neither of which fails: the attention of x with
  itself is added to x elementwise and the sum is normalized by the first layer norm,
  giving x1; the feed-forward output of x1 is added to x1 elementwise and the sum is
  normalized by the second layer norm, giving the result. Each normalization takes the sum
  as its argument, and the result has the shape of x.
\<close>

theorem EncoderLayer_forward_post_norm:
  assumes init: "EncoderLayer_init (int d_model) (int h) (int d_ff) g = Inr (m, g')"
    and h: "0 < h" and d: "0 < d_model"
    and x: "shape x = [b, l, d_model]" and b: "0 < b"
  shows "\<exists>a s x1 ff s2 y.
           MultiHeadAttention_forward (attention m) x x x = Inr a \<and> shape a = shape x \<and>
           add x a = Inr s \<and>
           (\<forall>idx. valid_index (shape x) idx \<longrightarrow> get s idx = get x idx + get a idx) \<and>
           LayerNorm_forward (norm1 m) s = Inr x1 \<and> shape x1 = shape x \<and>
           PositionWiseFeedForward_forward (ffn m) x1 = Inr ff \<and> shape ff = shape x \<and>
           add x1 ff = Inr s2 \<and>
           (\<forall>idx. valid_index (shape x) idx \<longrightarrow> get s2 idx = get x1 idx + get ff idx) \<and>
           LayerNorm_forward (norm2 m) s2 = Inr y \<and>
           EncoderLayer_forward m x = Inr y \<and> shape y = shape x"
proof -
  have ok: "EncoderLayer_ok m h (d_model div h) d_ff" and dh: "h * (d_model div h) = d_model"
    using EncoderLayer_init_ok [OF init h d] by simp_all
  have x': "shape x = [b, l, h * (d_model div h)]" using x dh by simp
  obtain a s x1 ff s2 y where st:
    "MultiHeadAttention_forward (attention m) x x x = Inr a" "shape a = shape x"
    "add x a = Inr s" "LayerNorm_forward (norm1 m) s = Inr x1" "shape x1 = shape x"
    "PositionWiseFeedForward_forward (ffn m) x1 = Inr ff" "shape ff = shape x"
    "add x1 ff = Inr s2" "LayerNorm_forward (norm2 m) s2 = Inr y"
    "EncoderLayer_forward m x = Inr y" "shape y = shape x"
    using EncoderLayer_forward_stages [OF ok x' b] by blast
  have r1: "\<forall>idx. valid_index (shape x) idx \<longrightarrow> get s idx = get x idx + get a idx"
    using add_get [OF st(2) [symmetric] st(3)] by blast
  have r2: "\<forall>idx. valid_index (shape x) idx \<longrightarrow> get s2 idx = get x1 idx + get ff idx"
    using add_get [of x1 ff s2] st(5,7,8) by simp
  show ?thesis using st r1 r2 by blast
qed

theorem EncoderLayer_forward_post_norm_witness:
  "\<exists>m g' y. EncoderLayer_init 4 2 3 (\<lambda>_. 0) = Inr (m, g') \<and>
     EncoderLayer_forward m \<lparr>shape = [1, 3, 4], data = replicate 12 0\<rparr> = Inr y \<and>
     shape y = [1, 3, 4]"
proof -
  let ?x = "\<lparr>shape = [1, 3, 4], data = replicate 12 (0::real)\<rparr>"
  obtain m g' where init: "EncoderLayer_init 4 2 3 (\<lambda>_. 0) = Inr (m, g')"
    using EncoderLayer_init_total [of 2 4 3 "\<lambda>_. 0"] by auto
  have init': "EncoderLayer_init (int 4) (int 2) (int 3) (\<lambda>_. 0) = Inr (m, g')"
    using init by simp
  have x: "shape ?x = [1, 3, 4]" by simp
  show ?thesis
    using EncoderLayer_forward_post_norm [OF init' _ _ x] init by auto
qed

section \<open>Attention weights and the positional table\<close>

lemma get_softmax4:
  assumes "shape t = [a, b, c, d]" "i < a" "j < b" "r < c" "q < d"
  shows "get (softmax t) [i, j, r, q] =
           exp (get t [i, j, r, q]) / (\<Sum>e\<leftarrow>[0..<d]. exp (get t [i, j, r, e]))"
proof -
  have "get (tabulate [a, b, c, d]
          (\<lambda>idx. exp (get t idx) / (\<Sum>e\<leftarrow>[0..<d]. exp (get t (butlast idx @ [e]))))) [i, j, r, q]
        = exp (get t [i, j, r, q]) / (\<Sum>e\<leftarrow>[0..<d]. exp (get t (butlast [i, j, r, q] @ [e])))"
    using assms by (intro get_tabulate) (simp add: valid_index4)
  then show ?thesis using assms(1) by (simp add: softmax_def)
qed

lemma softmax_row:
  fixes f :: "nat \<Rightarrow> real"
  assumes "0 < n"
  shows "(\<Sum>c<n. exp (f c) / (\<Sum>e\<leftarrow>[0..<n]. exp (f e))) = 1"
    and "c < n \<Longrightarrow> 0 \<le> exp (f c) / (\<Sum>e\<leftarrow>[0..<n]. exp (f e))"
    and "c < n \<Longrightarrow> exp (f c) / (\<Sum>e\<leftarrow>[0..<n]. exp (f e)) \<le> 1"
proof -
  let ?S = "\<Sum>e\<leftarrow>[0..<n]. exp (f e)"
  have S: "?S = (\<Sum>e<n. exp (f e))"
    by (simp add: interv_sum_list_conv_sum_set_nat atLeast0LessThan)
  have pos: "0 < ?S"
    unfolding S using assms by (intro sum_pos) auto
  show "(\<Sum>c<n. exp (f c) / ?S) = 1"
    using pos by (simp add: sum_divide_distrib [symmetric] S)
  show "0 \<le> exp (f c) / ?S" if "c < n"
    using pos by simp
  show "exp (f c) / ?S \<le> 1" if "c < n"
  proof -
    have "exp (f c) \<le> (\<Sum>e<n. exp (f e))"
      using that by (intro member_le_sum) auto
    then show ?thesis using pos by (simp add: S)
  qed
qed

text \<open>
  In exact arithmetic, for Q and K of shape [B, H, L, d_k] and a positive \<open>self.d_k\<close>, the
  weights after the softmax have shape [B, H, L, L], every row over the last axis sums to
  1 and every weight lies between 0 and 1. This is a fact about the real-valued model
  only: the code computes in 32-bit floats, where a product that overflows gives an
  infinite score and a row of NaN, and where a row sums to 1 only up to rounding.
\<close>

lemma attention_weights_rows_exact:
  assumes dk: "0 < d_k m" and Q: "shape Q = [b, h, l, k]" and K: "shape K = [b, h, l, k]"
  shows "\<exists>w. attention_weights m Q K = Inr w \<and> shape w = [b, h, l, l] \<and>
           (\<forall>i<b. \<forall>j<h. \<forall>r<l.
              (\<Sum>c<l. get w [i, j, r, c]) = 1 \<and>
              (\<forall>c<l. 0 \<le> get w [i, j, r, c] \<and> get w [i, j, r, c] \<le> 1))"
proof -
  let ?Kt = "tabulate [b, h, k, l] (\<lambda>idx. get K (swap 2 3 idx))"
  have t: "transpose_t K (- 2) (- 1) = Inr ?Kt" using K by (rule transpose_last_ok)
  obtain qk where qk: "matmul Q ?Kt = Inr qk" "shape qk = [b, h, l, l]"
    using matmul4_ok [of Q b h l k ?Kt l] Q by auto
  define sc where "sc = map_tensor (\<lambda>v. v / sqrt (real_of_int (d_k m))) qk"
  have ssc: "shape sc = [b, h, l, l]" using qk(2) by (simp add: sc_def)
  have w: "attention_weights m Q K = Inr (softmax sc)"
    using t qk dk by (simp add: attention_weights_def sc_def)
  have rows: "(\<Sum>c<l. get (softmax sc) [i, j, r, c]) = 1 \<and>
              (\<forall>c<l. 0 \<le> get (softmax sc) [i, j, r, c] \<and> get (softmax sc) [i, j, r, c] \<le> 1)"
    if "i < b" "j < h" "r < l" for i j r
  proof -
    have lpos: "0 < l" using that(3) by simp
    have g: "get (softmax sc) [i, j, r, c] =
               exp (get sc [i, j, r, c]) / (\<Sum>e\<leftarrow>[0..<l]. exp (get sc [i, j, r, e]))"
      if "c < l" for c
      using get_softmax4 [OF ssc \<open>i < b\<close> \<open>j < h\<close> \<open>r < l\<close> that] .
    have "(\<Sum>c<l. get (softmax sc) [i, j, r, c]) =
          (\<Sum>c<l. exp (get sc [i, j, r, c]) / (\<Sum>e\<leftarrow>[0..<l]. exp (get sc [i, j, r, e])))"
      using g by simp
    also have "\<dots> = 1" using softmax_row(1) [OF lpos, of "\<lambda>c. get sc [i, j, r, c]"] .
    finally have s: "(\<Sum>c<l. get (softmax sc) [i, j, r, c]) = 1" .
    have "0 \<le> get (softmax sc) [i, j, r, c] \<and> get (softmax sc) [i, j, r, c] \<le> 1" if "c < l" for c
      using g [OF that] softmax_row(2,3) [OF lpos that, of "\<lambda>c. get sc [i, j, r, c]"] by simp
    then show ?thesis using s by blast
  qed
  show ?thesis using w ssc rows by auto
qed




lemma PositionalEncoding_forward_get:
  assumes pe: "shape (pe m) = [1, n, d]" and x: "shape x = [b, l, d]" and l: "l \<le> n"
  shows "\<exists>y. PositionalEncoding_forward m x = Inr y \<and> shape y = shape x \<and> wf_tensor y \<and>
           (\<forall>i<b. \<forall>j<l. \<forall>k<d. get y [i, j, k] = get x [i, j, k] + get (pe m) [0, j, k])"
proof -
  let ?s = "tabulate [1, l, d] (get (pe m))"
  let ?y = "tabulate [b, l, d] (\<lambda>idx. bget x idx + bget ?s idx)"
  have sz: "size_at x 1 = Inr l" using x by (simp add: size_at_def)
  have sl: "slice_dim1 (pe m) l = Inr ?s"
    using pe l by (simp add: slice_dim1_def min_def)
  have f: "PositionalEncoding_forward m x = Inr ?y"
    using sz sl x by (simp add: PositionalEncoding_forward_def add_def binop_def broadcast_pe)
  have "get ?y [i, j, k] = get x [i, j, k] + get (pe m) [0, j, k]"
    if "i < b" "j < l" "k < d" for i j k
  proof -
    have "get ?y [i, j, k] = bget x [i, j, k] + bget ?s [i, j, k]"
      using that by (intro get_tabulate) (simp add: valid_index3)
    moreover have "bget x [i, j, k] = get x [i, j, k]"
      using that x by (intro bget_same) (simp add: valid_index3)
    moreover have "bget ?s [i, j, k] = get ?s [0, j, k]"
      using that by (auto simp: bget_def)
    moreover have "get ?s [0, j, k] = get (pe m) [0, j, k]"
      using that by (intro get_tabulate) (simp add: valid_index3)
    ultimately show ?thesis by simp
  qed
  then show ?thesis using f x by simp
qed




section \<open>Patch rows, construction and sequence length\<close>

lemma patchify_spec_example:
  "patchify_spec 1 \<lparr>shape = [1, 3, 2, 2], data = [0, 1, 2, 3, 4, 5, 6, 7, 8, 9, 10, 11::real]\<rparr>
   = \<lparr>shape = [1, 4, 3], data = [0, 4, 8, 1, 5, 9, 2, 6, 10, 3, 7, 11]\<rparr>"
  by (simp add: patchify_spec_def tabulate_def get_def Let_def upt_conv_Cons)

lemma patchify_example:
  assumes "patch_size m = 1" "patch_dim m = 3"
  shows "patchify m \<lparr>shape = [1, 3, 2, 2], data = [0, 1, 2, 3, 4, 5, 6, 7, 8, 9, 10, 11::real]\<rparr>
   = Inr \<lparr>shape = [1, 4, 3], data = [0, 1, 2, 3, 4, 5, 6, 7, 8, 9, 10, 11]\<rparr>"
  using assms
  by (simp add: patchify_def size_at_def unfold_t_def tabulate_def get_def view_def Let_def
      upt_conv_Cons numeral_2_eq_2 [symmetric])

text \<open>
  C1, at a failing input. A model with img_size 2 and patch_size 1 is given one image
  with three channels of 2 by 2 pixels, channel 0 holding 0 to 3, channel 1 holding 4 to 7,
  channel 2 holding 8 to 11. The four patches of the specification are the four pixels,
  each with its three channel values: [0, 4, 8], [1, 5, 9], [2, 6, 10], [3, 7, 11].
  \<open>patchify\<close> returns the right shape [1, 4, 3], but its rows are [0, 1, 2], [3, 4, 5],
  [6, 7, 8], [9, 10, 11]: consecutive runs of the channel-major data, each mixing several
  tiles of one or two channels.
\<close>

theorem patchify_rows_are_not_tiles:
  "\<exists>m g'. TransformerEncoder_init 2 1 2 1 1 2 2 (\<lambda>_. 0) = Inr (m, g') \<and>
     patchify m \<lparr>shape = [1, 3, 2, 2], data = [0, 1, 2, 3, 4, 5, 6, 7, 8, 9, 10, 11::real]\<rparr>
       = Inr \<lparr>shape = [1, 4, 3], data = [0, 1, 2, 3, 4, 5, 6, 7, 8, 9, 10, 11]\<rparr> \<and>
     patchify_spec 1 \<lparr>shape = [1, 3, 2, 2], data = [0, 1, 2, 3, 4, 5, 6, 7, 8, 9, 10, 11::real]\<rparr>
       = \<lparr>shape = [1, 4, 3], data = [0, 4, 8, 1, 5, 9, 2, 6, 10, 3, 7, 11]\<rparr>"
proof -
  obtain m g' where init: "TransformerEncoder_init 2 1 2 1 1 2 2 (\<lambda>_. 0) = Inr (m, g')"
    using TransformerEncoder_init_total [of 1 2 1 1 2 2 2 "\<lambda>_. 0"] by auto
  have "patch_size m = 1" "patch_dim m = 3"
    using TransformerEncoder_init_InrD [OF init] by simp_all
  then show ?thesis using init patchify_example patchify_spec_example by blast
qed

text \<open>
  C2, as the claim states it, fails: img_size 224 is not a multiple of patch_size 15, and
  the constructor returns a model.
\<close>

theorem construction_224_15_counterexample:
  "(224::int) mod 15 \<noteq> 0 \<and>
   (\<exists>m g'. TransformerEncoder_init 224 15 256 8 6 1024 2 (\<lambda>_. 0) = Inr (m, g'))"
  using TransformerEncoder_init_total [of 15 256 6 8 1024 2 224 "\<lambda>_. 0"] by auto

text \<open>
  C2, amended. The constructor does not look at the remainder of img_size by patch_size.
  With a non-zero patch_size, a positive d_model that is even (or 1), a non-negative
  num_classes and, when there is at least one layer, a non-zero num_heads dividing d_model
  and a non-negative d_ff, construction succeeds for every img_size; the model has
  num_patches = (img_size // patch_size)^2 and patch_dim = 3 * patch_size^2.
\<close>

theorem construction_ignores_divisibility:
  assumes "p \<noteq> 0" "0 < d_model" "even d_model \<or> d_model = 1"
    and "L \<le> 0 \<or> (h \<noteq> 0 \<and> d_model mod h = 0 \<and> 0 \<le> d_ff)" "0 \<le> num_classes"
  shows "\<exists>m g'. TransformerEncoder_init img_size p d_model h L d_ff num_classes g = Inr (m, g') \<and>
           patch_size m = p \<and> num_patches m = (img_size div p)\<^sup>2 \<and> patch_dim m = 3 * p * p"
proof -
  obtain m g' where init: "TransformerEncoder_init img_size p d_model h L d_ff num_classes g = Inr (m, g')"
    using TransformerEncoder_init_total [OF assms, of img_size g] by auto
  show ?thesis using init TransformerEncoder_init_InrD [OF init] by blast
qed

theorem construction_ignores_divisibility_witness:
  "\<exists>m g'. TransformerEncoder_init 224 15 256 8 6 1024 2 (\<lambda>_. 0) = Inr (m, g') \<and>
     patch_size m = 15 \<and> num_patches m = 196 \<and> patch_dim m = 675"
  using construction_ignores_divisibility [of 15 256 6 8 1024 2 224 "\<lambda>_. 0"] by simp

text \<open>
  C9, as the claim states it, fails: with max_len = 1 an input of two positions is longer
  than the table, and \<open>forward\<close> returns a result, the single table row [0, 1] added to
  both positions.
\<close>

theorem PositionalEncoding_forward_long_input_counterexample:
  "\<exists>m. PositionalEncoding_init 2 1 = Inr m \<and> shape (pe m) = [1, 1, 2] \<and>
     PositionalEncoding_forward m \<lparr>shape = [1, 2, 2], data = [10, 20, 30, 40]\<rparr>
       = Inr \<lparr>shape = [1, 2, 2], data = [10, 21, 30, 41]\<rparr>"
proof -
  have "PositionalEncoding_forward \<lparr>pe = pe_table 2 1\<rparr> \<lparr>shape = [1, 2, 2], data = [10, 20, 30, 40]\<rparr>
          = Inr \<lparr>shape = [1, 2, 2], data = [10, 21, 30, 41]\<rparr>"
    by (simp add: PositionalEncoding_forward_def size_at_def slice_dim1_def add_def binop_def
        broadcast_shapes_def tabulate_def get_def bget_def pe_table_def unsqueeze0_def upt_conv_Cons)
  then show ?thesis by (simp add: PositionalEncoding_init_cases)
qed

text \<open>
  C9, amended. For an input x of shape [B, L, d_model] with L above max_len, \<open>forward\<close>
  fails with a RuntimeError (the slice of the table has max_len rows and does not
  broadcast against L positions) whenever max_len is not 1 and L is not 1.
\<close>

theorem PositionalEncoding_forward_long_input:
  assumes init: "PositionalEncoding_init d_model max_len = Inr m"
    and x: "shape x = [b, l, nat d_model]"
    and l: "nat max_len < l" "max_len \<noteq> 1" "l \<noteq> 1"
  shows "PositionalEncoding_forward m x = Inl RuntimeError"
proof -
  note D = PositionalEncoding_init_InrD [OF init]
  have sh: "shape (pe m) = [1, nat max_len, nat d_model]" using D by simp
  have n1: "nat max_len \<noteq> 1" using l(2) D by auto
  show ?thesis using PositionalEncoding_forward_cases(2) [OF sh x l(1) n1 l(3)] .
qed

theorem PositionalEncoding_forward_long_input_witness:
  "\<exists>m. PositionalEncoding_init 2 2 = Inr m \<and>
     PositionalEncoding_forward m \<lparr>shape = [1, 3, 2], data = replicate 6 0\<rparr> = Inl RuntimeError"
proof -
  obtain m where init: "PositionalEncoding_init 2 2 = Inr m"
    by (simp add: PositionalEncoding_init_cases)
  have x: "shape \<lparr>shape = [1, 3, 2], data = replicate 6 (0::real)\<rparr> = [1, 3, nat 2]" by simp
  show ?thesis
    using PositionalEncoding_forward_long_input [OF init x] init by simp
qed

lemma d_model_one_constructs:
  "0 \<le> n \<Longrightarrow> PositionalEncoding_init 1 n = Inr \<lparr>pe = pe_table 1 n\<rparr>"
  by (simp add: PositionalEncoding_init_cases)

lemma odd_pe_fails:
  assumes "odd d" "3 \<le> d"
  shows "PositionalEncoding_init d n = Inl RuntimeError"
  using assms by (simp add: PositionalEncoding_init_cases)

text \<open>
  C10. Every odd d_model of at least 3 makes construction fail, whatever the other
  arguments (patch_size not 0): the cosine assignment selects the d_model div 2 odd
  columns, the divisor term has (d_model + 1) div 2 entries, and the assignment raises a
  RuntimeError, both in \<open>PositionalEncoding\<close> alone and in \<open>TransformerEncoder\<close>. In
  particular d_model = 255 with num_heads = 5, which divides it, does not construct.
\<close>

theorem odd_d_model_construction_fails:
  assumes "odd d_model" "3 \<le> d_model" "p \<noteq> 0"
  shows "TransformerEncoder_init img_size p d_model h L d_ff num_classes g = Inl RuntimeError \<and>
         PositionalEncoding_init d_model max_len = Inl RuntimeError \<and>
         selected_cols (nat d_model) 1 2 = nat d_model div 2 \<and>
         (\<exists>ev. arange 0 d_model 2 = Inr ev \<and>
               shape (div_term d_model ev) = [(nat d_model + 1) div 2]) \<and>
         nat d_model div 2 \<noteq> (nat d_model + 1) div 2"
proof -
  have d0: "0 \<le> d_model" "0 \<le> 3 * p * p" using assms(2) by simp_all
  obtain emb g1 where e: "Linear_init (3 * p * p) d_model g = Inr (emb, g1)"
    using Linear_init_total [OF d0(2) d0(1), of g] by auto
  have pe: "PositionalEncoding_init d_model n = Inl RuntimeError" for n
    using odd_pe_fails [OF assms(1,2)] .
  have t: "TransformerEncoder_init img_size p d_model h L d_ff num_classes g = Inl RuntimeError"
    using assms(3) e pe by (simp add: TransformerEncoder_init_def Let_def)
  have sel: "selected_cols (nat d_model) 1 2 = nat d_model div 2"
    using assms(2) by (simp add: selected_cols_def)
  have "nat ((1 + d_model) div 2) = (nat d_model + 1) div 2"
    using assms(2) by (simp add: nat_div_distrib nat_add_distrib)
  then have ar: "\<exists>ev. arange 0 d_model 2 = Inr ev \<and>
               shape (div_term d_model ev) = [(nat d_model + 1) div 2]"
    using assms(2) by (simp add: arange_def Let_def div_term_def)
  have "odd (nat d_model)" using assms(1,2) by (simp add: even_nat_iff)
  moreover have "odd x \<Longrightarrow> x div 2 \<noteq> (x + 1) div 2" for x :: nat by presburger
  ultimately have ne: "nat d_model div 2 \<noteq> (nat d_model + 1) div 2" by blast
  show ?thesis using t pe sel ar ne by blast
qed

theorem odd_d_model_construction_fails_witness:
  "(255::int) mod 5 = 0 \<and> (224::int) mod 16 = 0 \<and>
   TransformerEncoder_init 224 16 255 5 6 1024 2 (\<lambda>_. 0) = Inl RuntimeError \<and>
   PositionalEncoding_init 255 196 = Inl RuntimeError \<and>
   selected_cols 255 1 2 = 127 \<and>
   (\<exists>ev. arange 0 255 2 = Inr ev \<and> shape (div_term 255 ev) = [128])"
  using odd_d_model_construction_fails [of 255 16 224 5 6 1024 2 "\<lambda>_. 0" 196] by simp

section \<open>Inputs with a channel count other than three\<close>

lemma forward_channels_cases:
  assumes init: "TransformerEncoder_init (int img_size) (int p) (int d_model) (int h) (int L)
                   (int d_ff) (int num_classes) g = Inr (m, g')"
    and p: "0 < p" "p \<le> img_size" and h: "0 < h \<or> L = 0"
    and x: "shape x = [b, c, img_size, img_size]" and b: "0 < b"
  shows "\<not> 3 dvd c * (img_size div p)\<^sup>2 \<Longrightarrow> TransformerEncoder_forward m x = Inl RuntimeError"
    and "3 dvd c * (img_size div p)\<^sup>2 \<Longrightarrow> 3 < c \<Longrightarrow> 2 \<le> (img_size div p)\<^sup>2 \<Longrightarrow>
           TransformerEncoder_forward m x = Inl RuntimeError"
    and "3 dvd c * (img_size div p)\<^sup>2 \<Longrightarrow> c \<le> 3 \<or> (img_size div p)\<^sup>2 < 2 \<Longrightarrow>
           \<exists>x1 x2 x3 x4 x5 x6 y.
             patchify m x = Inr x1 \<and> shape x1 = [b, c * (img_size div p)\<^sup>2 div 3, 3 * p * p] \<and>
             Linear_forward (patch_embedding m) x1 = Inr x2 \<and>
             PositionalEncoding_forward (positional_encoding m) x2 = Inr x3 \<and>
             run_layers (encoder_layers m) x3 = Inr x4 \<and>
             LayerNorm_forward (norm_ln m) x4 = Inr x5 \<and>
             mean_dim1 x5 = Inr x6 \<and>
             Linear_forward (fc m) x6 = Inr y \<and>
             TransformerEncoder_forward m x = Inr y \<and> shape y = [b, num_classes]"
proof -
  let ?N = "(img_size div p)\<^sup>2"
  have hh: "0 < int h \<or> int L \<le> 0" using h by auto
  have ok: "TransformerEncoder_ok m p ?N d_model d_ff num_classes"
    using TransformerEncoder_init_ok [OF init _ hh] p(1) by (simp add: nat_patches)
  have ps: "patch_size m = int p" and pd: "patch_dim m = int (3 * p * p)"
    and emb: "Linear_ok (patch_embedding m) (3 * p * p) d_model"
    and pe: "shape (pe (positional_encoding m)) = [1, ?N, d_model]"
    using ok by (simp_all add: TransformerEncoder_ok_def)
  have cn: "c * (img_size div p) * (img_size div p) = c * ?N"
    by (simp add: power2_eq_square)
  note pc = patchify_cases [OF ps pd p(1) x p(2) p(2) b, unfolded cn]
  have Npos: "0 < ?N" using p by (simp add: div_greater_zero_iff)
  show "TransformerEncoder_forward m x = Inl RuntimeError" if "\<not> 3 dvd c * ?N"
    using pc(2) [OF that] by (simp add: TransformerEncoder_forward_def)
  show "TransformerEncoder_forward m x = Inl RuntimeError"
    if d: "3 dvd c * ?N" and c: "3 < c" and n: "2 \<le> ?N"
  proof -
    let ?l = "c * ?N div 3"
    obtain x1 where x1: "patchify m x = Inr x1" "shape x1 = [b, ?l, 3 * p * p]"
      using pc(1) [OF d] by auto
    obtain x2 where x2: "Linear_forward (patch_embedding m) x1 = Inr x2" "shape x2 = [b, ?l, d_model]"
      using Linear_forward_ok3 [OF emb x1(2)] by auto
    have "3 * ?l = c * ?N" using d by simp
    moreover have "3 * ?N < c * ?N" using c Npos by simp
    ultimately have l: "?N < ?l" by linarith
    have n1: "?N \<noteq> 1" using n by linarith
    have l1: "?l \<noteq> 1" using l n by linarith
    have "PositionalEncoding_forward (positional_encoding m) x2 = Inl RuntimeError"
      using PositionalEncoding_forward_cases(2) [OF pe x2(2) l n1 l1] .
    then show ?thesis using x1 x2 by (simp add: TransformerEncoder_forward_def)
  qed
  show "\<exists>x1 x2 x3 x4 x5 x6 y.
          patchify m x = Inr x1 \<and> shape x1 = [b, c * ?N div 3, 3 * p * p] \<and>
          Linear_forward (patch_embedding m) x1 = Inr x2 \<and>
          PositionalEncoding_forward (positional_encoding m) x2 = Inr x3 \<and>
          run_layers (encoder_layers m) x3 = Inr x4 \<and>
          LayerNorm_forward (norm_ln m) x4 = Inr x5 \<and>
          mean_dim1 x5 = Inr x6 \<and>
          Linear_forward (fc m) x6 = Inr y \<and>
          TransformerEncoder_forward m x = Inr y \<and> shape y = [b, num_classes]"
    if d: "3 dvd c * ?N" and c: "c \<le> 3 \<or> ?N < 2"
  proof -
    let ?l = "c * ?N div 3"
    obtain x1 where x1: "patchify m x = Inr x1" "shape x1 = [b, ?l, 3 * p * p]"
      using pc(1) [OF d] by auto
    have l: "?l \<le> ?N \<or> ?N = 1"
    proof (cases "c \<le> 3")
      case True
      then have "c * ?N \<le> 3 * ?N" by simp
      then have "c * ?N div 3 \<le> 3 * ?N div 3" by (rule div_le_mono)
      also have "3 * ?N div 3 = ?N" by (rule nonzero_mult_div_cancel_left) simp
      finally show ?thesis by blast
    next
      case False
      then have "?N < 2" using c by blast
      then have "?N = 1" using Npos by linarith
      then show ?thesis by blast
    qed
    obtain x2 x3 x4 x5 x6 y where s:
      "Linear_forward (patch_embedding m) x1 = Inr x2"
      "PositionalEncoding_forward (positional_encoding m) x2 = Inr x3"
      "run_layers (encoder_layers m) x3 = Inr x4"
      "LayerNorm_forward (norm_ln m) x4 = Inr x5"
      "mean_dim1 x5 = Inr x6"
      "Linear_forward (fc m) x6 = Inr y" "shape y = [b, num_classes]"
      using forward_from_patches [OF ok x1(2) b l] by auto
    have fw: "TransformerEncoder_forward m x = Inr y"
      using x1 s by (simp add: TransformerEncoder_forward_def)
    note a1 = x1(1) and a2 = x1(2)
    show ?thesis
      by (rule exI [of _ x1], rule exI [of _ x2], rule exI [of _ x3], rule exI [of _ x4],
          rule exI [of _ x5], rule exI [of _ x6], rule exI [of _ y], (intro conjI; fact))
  qed
qed

text \<open>
  C8, as the claim states it, fails: a model for 48 by 48 images and 16 by 16 patches is
  given a batch of four one-channel images. \<open>patchify\<close> views the 9 tiles of an image as
  3 rows of 768 values, and \<open>forward\<close> returns logits of shape [4, 2].
\<close>

theorem forward_one_channel_counterexample:
  "\<exists>m g' x1 y. TransformerEncoder_init 48 16 256 8 6 1024 2 (\<lambda>_. 0) = Inr (m, g') \<and>
     patchify m \<lparr>shape = [4, 1, 48, 48], data = replicate 9216 (0::real)\<rparr> = Inr x1 \<and>
     shape x1 = [4, 3, 768] \<and>
     TransformerEncoder_forward m \<lparr>shape = [4, 1, 48, 48], data = replicate 9216 0\<rparr> = Inr y \<and>
     shape y = [4, 2]"
proof -
  let ?x = "\<lparr>shape = [4, 1, 48, 48], data = replicate 9216 (0::real)\<rparr>"
  obtain m g' where init: "TransformerEncoder_init 48 16 256 8 6 1024 2 (\<lambda>_. 0) = Inr (m, g')"
    using TransformerEncoder_init_total [of 16 256 6 8 1024 2 48 "\<lambda>_. 0"] by auto
  have init': "TransformerEncoder_init (int 48) (int 16) (int 256) (int 8) (int 6) (int 1024) (int 2)
                 (\<lambda>_. 0) = Inr (m, g')"
    using init by simp
  have x: "shape ?x = [4, 1, 48, 48]" by simp
  have "\<exists>x1 x2 x3 x4 x5 x6 y.
          patchify m ?x = Inr x1 \<and> shape x1 = [4, 1 * (48 div 16)\<^sup>2 div 3, 3 * 16 * 16] \<and>
          Linear_forward (patch_embedding m) x1 = Inr x2 \<and>
          PositionalEncoding_forward (positional_encoding m) x2 = Inr x3 \<and>
          run_layers (encoder_layers m) x3 = Inr x4 \<and>
          LayerNorm_forward (norm_ln m) x4 = Inr x5 \<and>
          mean_dim1 x5 = Inr x6 \<and>
          Linear_forward (fc m) x6 = Inr y \<and>
          TransformerEncoder_forward m ?x = Inr y \<and> shape y = [4, 2]"
    by (rule forward_channels_cases(3) [OF init' _ _ _ x]) simp_all
  then obtain x1 y where "patchify m ?x = Inr x1" "shape x1 = [4, 1 * (48 div 16)\<^sup>2 div 3, 3 * 16 * 16]"
    "TransformerEncoder_forward m ?x = Inr y" "shape y = [4, 2]"
    by (elim exE conjE) (rule that; assumption)
  then have "\<exists>x1 y. patchify m ?x = Inr x1 \<and> shape x1 = [4, 3, 768] \<and>
                  TransformerEncoder_forward m ?x = Inr y \<and> shape y = [4, 2]"
    by simp
  with init show ?thesis by blast
qed

text \<open>
  C8, amended. Take a model constructed with 0 < patch_size \<le> img_size and with a
  positive num_heads (or with no layers), and a batch of shape [B, C, img_size, img_size]
  with B > 0 and C not 3; let N be the square of img_size div patch_size. \<open>forward\<close> fails
  with a RuntimeError when C * N is not a multiple of 3 (the view in \<open>patchify\<close>), and when
  C > 3 and N is at least 2 (the positional table has fewer rows than the C * N / 3
  positions). In the remaining cases every stage succeeds: \<open>patchify\<close> returns
  C * N / 3 rows of 3 * p * p values per image, and the embedding, the positional encoding,
  the layers, the final normalization, the mean and the last linear map run on them and
  give logits of shape [B, num_classes] (for C = 0 the mean is over no rows and the code's
  logits are NaN).
\<close>

theorem forward_wrong_channels:
  assumes init: "TransformerEncoder_init (int img_size) (int p) (int d_model) (int h) (int L)
                   (int d_ff) (int num_classes) g = Inr (m, g')"
    and p: "0 < p" "p \<le> img_size" and h: "0 < h \<or> L = 0"
    and x: "shape x = [b, c, img_size, img_size]" and b: "0 < b" and c: "c \<noteq> 3"
  shows "if \<not> 3 dvd c * (img_size div p)\<^sup>2 \<or> (3 < c \<and> 2 \<le> (img_size div p)\<^sup>2)
         then TransformerEncoder_forward m x = Inl RuntimeError
         else \<exists>x1 x2 x3 x4 x5 x6 y.
           patchify m x = Inr x1 \<and> shape x1 = [b, c * (img_size div p)\<^sup>2 div 3, 3 * p * p] \<and>
           Linear_forward (patch_embedding m) x1 = Inr x2 \<and>
           PositionalEncoding_forward (positional_encoding m) x2 = Inr x3 \<and>
           run_layers (encoder_layers m) x3 = Inr x4 \<and>
           LayerNorm_forward (norm_ln m) x4 = Inr x5 \<and>
           mean_dim1 x5 = Inr x6 \<and>
           Linear_forward (fc m) x6 = Inr y \<and>
           TransformerEncoder_forward m x = Inr y \<and> shape y = [b, num_classes]"
proof -
  note cs = forward_channels_cases [OF init p h x b]
  show ?thesis
  proof (cases "\<not> 3 dvd c * (img_size div p)\<^sup>2 \<or> (3 < c \<and> 2 \<le> (img_size div p)\<^sup>2)")
    case True
    then show ?thesis using cs(1,2) by auto
  next
    case False
    then have d: "3 dvd c * (img_size div p)\<^sup>2" and r: "c \<le> 3 \<or> (img_size div p)\<^sup>2 < 2"
      by auto
    show ?thesis using False cs(3) [OF d r] by (simp only: if_False)
  qed
qed

theorem forward_wrong_channels_witness:
  "\<exists>m g' m2 g2 m3 g3 x1 y.
     TransformerEncoder_init 224 16 256 8 6 1024 2 (\<lambda>_. 0) = Inr (m, g') \<and>
     TransformerEncoder_forward m \<lparr>shape = [4, 1, 224, 224], data = replicate 200704 0\<rparr>
       = Inl RuntimeError \<and>
     TransformerEncoder_init 32 16 256 8 6 1024 2 (\<lambda>_. 0) = Inr (m2, g2) \<and>
     TransformerEncoder_forward m2 \<lparr>shape = [4, 6, 32, 32], data = replicate 24576 0\<rparr>
       = Inl RuntimeError \<and>
     TransformerEncoder_init 16 16 256 8 6 1024 2 (\<lambda>_. 0) = Inr (m3, g3) \<and>
     patchify m3 \<lparr>shape = [4, 6, 16, 16], data = replicate 6144 (0::real)\<rparr> = Inr x1 \<and>
     shape x1 = [4, 2, 768] \<and>
     TransformerEncoder_forward m3 \<lparr>shape = [4, 6, 16, 16], data = replicate 6144 0\<rparr> = Inr y \<and>
     shape y = [4, 2]"
proof -
  let ?x = "\<lparr>shape = [4, 1, 224, 224], data = replicate 200704 (0::real)\<rparr>"
  let ?x2 = "\<lparr>shape = [4, 6, 32, 32], data = replicate 24576 (0::real)\<rparr>"
  let ?x3 = "\<lparr>shape = [4, 6, 16, 16], data = replicate 6144 (0::real)\<rparr>"
  obtain m g' where init: "TransformerEncoder_init 224 16 256 8 6 1024 2 (\<lambda>_. 0) = Inr (m, g')"
    using TransformerEncoder_init_total [of 16 256 6 8 1024 2 224 "\<lambda>_. 0"] by auto
  obtain m2 g2 where init2: "TransformerEncoder_init 32 16 256 8 6 1024 2 (\<lambda>_. 0) = Inr (m2, g2)"
    using TransformerEncoder_init_total [of 16 256 6 8 1024 2 32 "\<lambda>_. 0"] by auto
  obtain m3 g3 where init3: "TransformerEncoder_init 16 16 256 8 6 1024 2 (\<lambda>_. 0) = Inr (m3, g3)"
    using TransformerEncoder_init_total [of 16 256 6 8 1024 2 16 "\<lambda>_. 0"] by auto
  have i1: "TransformerEncoder_init (int 224) (int 16) (int 256) (int 8) (int 6) (int 1024) (int 2)
                 (\<lambda>_. 0) = Inr (m, g')"
    and i2: "TransformerEncoder_init (int 32) (int 16) (int 256) (int 8) (int 6) (int 1024) (int 2)
                 (\<lambda>_. 0) = Inr (m2, g2)"
    and i3: "TransformerEncoder_init (int 16) (int 16) (int 256) (int 8) (int 6) (int 1024) (int 2)
                 (\<lambda>_. 0) = Inr (m3, g3)"
    using init init2 init3 by simp_all
  have x: "shape ?x = [4, 1, 224, 224]" and x2: "shape ?x2 = [4, 6, 32, 32]"
    and x3: "shape ?x3 = [4, 6, 16, 16]" by simp_all
  have e1: "TransformerEncoder_forward m ?x = Inl RuntimeError"
    using forward_wrong_channels [OF i1 _ _ _ x] by simp
  have e2: "TransformerEncoder_forward m2 ?x2 = Inl RuntimeError"
    using forward_wrong_channels [OF i2 _ _ _ x2] by simp
  have "\<exists>x1 x2 x3 x4 x5 x6 y.
          patchify m3 ?x3 = Inr x1 \<and> shape x1 = [4, 6 * (16 div 16)\<^sup>2 div 3, 3 * 16 * 16] \<and>
          Linear_forward (patch_embedding m3) x1 = Inr x2 \<and>
          PositionalEncoding_forward (positional_encoding m3) x2 = Inr x3 \<and>
          run_layers (encoder_layers m3) x3 = Inr x4 \<and>
          LayerNorm_forward (norm_ln m3) x4 = Inr x5 \<and>
          mean_dim1 x5 = Inr x6 \<and>
          Linear_forward (fc m3) x6 = Inr y \<and>
          TransformerEncoder_forward m3 ?x3 = Inr y \<and> shape y = [4, 2]"
    using forward_wrong_channels [OF i3 _ _ _ x3] by simp
  then obtain x1 y where "patchify m3 ?x3 = Inr x1"
    "shape x1 = [4, 6 * (16 div 16)\<^sup>2 div 3, 3 * 16 * 16]"
    "TransformerEncoder_forward m3 ?x3 = Inr y" "shape y = [4, 2]"
    by (elim exE conjE) (rule that; assumption)
  then have s: "patchify m3 ?x3 = Inr x1" "shape x1 = [4, 2, 768]"
    "TransformerEncoder_forward m3 ?x3 = Inr y" "shape y = [4, 2]"
    by simp_all
  note s1 = s(1) and s2 = s(2) and s3 = s(3) and s4 = s(4)
  show ?thesis
    by (rule exI [of _ m], rule exI [of _ g'], rule exI [of _ m2], rule exI [of _ g2],
        rule exI [of _ m3], rule exI [of _ g3], rule exI [of _ x1], rule exI [of _ y],
        (intro conjI; fact))
qed

section \<open>The forward pass, stage by stage\<close>

lemma run_layers_chain:
  "run_layers ls x = Inr y \<Longrightarrow>
     \<exists>zs. length zs = Suc (length ls) \<and> zs ! 0 = x \<and> zs ! length ls = y \<and>
          (\<forall>i<length ls. EncoderLayer_forward (ls ! i) (zs ! i) = Inr (zs ! Suc i))"
proof (induction ls arbitrary: x)
  case Nil
  then show ?case by (intro exI [of _ "[x]"]) simp
next
  case (Cons l ls)
  from Cons.prems obtain z where z: "EncoderLayer_forward l x = Inr z" "run_layers ls z = Inr y"
    by (auto elim!: r_bind_InrE)
  from Cons.IH [OF z(2)] obtain zs where zs: "length zs = Suc (length ls)" "zs ! 0 = z"
    "zs ! length ls = y" "\<forall>i<length ls. EncoderLayer_forward (ls ! i) (zs ! i) = Inr (zs ! Suc i)"
    by blast
  have "EncoderLayer_forward ((l # ls) ! i) ((x # zs) ! i) = Inr ((x # zs) ! Suc i)"
    if "i < length (l # ls)" for i
    using that z(1) zs(2,4) by (cases i) auto
  then show ?case using zs(1,3) by (intro exI [of _ "x # zs"]) simp
qed

text \<open>
  C3. For a constructed model (0 < patch_size \<le> img_size, num_heads positive unless there
  are no layers) and a batch of shape [B, 3, img_size, img_size] with B > 0, \<open>forward\<close>
  runs exactly these stages, none of which fails. \<open>patchify\<close> gives [B, N, 3 * p * p] with
  N the square of img_size div p. The patch embedding gives [B, N, d_model]. The positional
  table was built with max_len = num_patches = N, and its row n is added to position n.
  The num_layers encoder layers run in order: there are tensors z(0), ..., z(num_layers),
  z(0) the output of the positional encoding, z(i + 1) the output of layer i on z(i), and
  z(num_layers) is what the final layer normalization receives. The mean over the patch
  axis gives [B, d_model], each entry the sum over the N positions divided by N. The last
  linear map gives the logits, of shape [B, num_classes].
\<close>

theorem forward_pipeline:
  assumes init: "TransformerEncoder_init (int img_size) (int p) (int d_model) (int h) (int L)
                   (int d_ff) (int num_classes) g = Inr (m, g')"
    and p: "0 < p" "p \<le> img_size" and h: "0 < h \<or> L = 0"
    and x: "shape x = [b, 3, img_size, img_size]" and b: "0 < b"
  shows "\<exists>x1 x2 x3 zs x4 x5 x6 y.
           patchify m x = Inr x1 \<and> shape x1 = [b, (img_size div p)\<^sup>2, 3 * p * p] \<and>
           Linear_forward (patch_embedding m) x1 = Inr x2 \<and>
           shape x2 = [b, (img_size div p)\<^sup>2, d_model] \<and>
           num_patches m = int ((img_size div p)\<^sup>2) \<and>
           positional_encoding m = \<lparr>pe = pe_table (int d_model) (num_patches m)\<rparr> \<and>
           shape (pe (positional_encoding m)) = [1, (img_size div p)\<^sup>2, d_model] \<and>
           PositionalEncoding_forward (positional_encoding m) x2 = Inr x3 \<and>
           shape x3 = [b, (img_size div p)\<^sup>2, d_model] \<and>
           (\<forall>i<b. \<forall>n<(img_size div p)\<^sup>2. \<forall>k<d_model.
              get x3 [i, n, k] = get x2 [i, n, k] + get (pe (positional_encoding m)) [0, n, k]) \<and>
           length (encoder_layers m) = L \<and>
           length zs = Suc L \<and> zs ! 0 = x3 \<and>
           (\<forall>i<L. EncoderLayer_forward (encoder_layers m ! i) (zs ! i) = Inr (zs ! Suc i)) \<and>
           zs ! L = x4 \<and>
           run_layers (encoder_layers m) x3 = Inr x4 \<and>
           shape x4 = [b, (img_size div p)\<^sup>2, d_model] \<and>
           LayerNorm_forward (norm_ln m) x4 = Inr x5 \<and>
           shape x5 = [b, (img_size div p)\<^sup>2, d_model] \<and>
           mean_dim1 x5 = Inr x6 \<and> shape x6 = [b, d_model] \<and>
           (\<forall>i<b. \<forall>j<d_model.
              get x6 [i, j] = (\<Sum>n\<leftarrow>[0..<(img_size div p)\<^sup>2]. get x5 [i, n, j])
                              / real ((img_size div p)\<^sup>2)) \<and>
           Linear_forward (fc m) x6 = Inr y \<and> shape y = [b, num_classes] \<and>
           TransformerEncoder_forward m x = Inr y"
proof -
  let ?N = "(img_size div p)\<^sup>2"
  have hh: "0 < int h \<or> int L \<le> 0" using h by auto
  have ok: "TransformerEncoder_ok m p ?N d_model d_ff num_classes"
    using TransformerEncoder_init_ok [OF init _ hh] p(1) by (simp add: nat_patches)
  note D = TransformerEncoder_init_InrD [OF init]
  have ps: "patch_size m = int p" and pd: "patch_dim m = int (3 * p * p)"
    using ok by (simp_all add: TransformerEncoder_ok_def)
  have np: "num_patches m = int ?N" using ok by (simp add: TransformerEncoder_ok_def)
  have dv: "3 dvd 3 * (img_size div p) * (img_size div p)" by simp
  obtain x1 where x1: "patchify m x = Inr x1" "shape x1 = [b, ?N, 3 * p * p]"
    using patchify_cases(1) [OF ps pd p(1) x p(2) p(2) b dv] by (auto simp: power2_eq_square)
  obtain x2 x3 x4 x5 x6 y where s:
    "Linear_forward (patch_embedding m) x1 = Inr x2" "shape x2 = [b, ?N, d_model]"
    "PositionalEncoding_forward (positional_encoding m) x2 = Inr x3" "shape x3 = [b, ?N, d_model]"
    "run_layers (encoder_layers m) x3 = Inr x4" "shape x4 = [b, ?N, d_model]"
    "LayerNorm_forward (norm_ln m) x4 = Inr x5" "shape x5 = [b, ?N, d_model]"
    "mean_dim1 x5 = Inr x6" "shape x6 = [b, d_model]"
    "Linear_forward (fc m) x6 = Inr y" "shape y = [b, num_classes]"
    using forward_from_patches [OF ok x1(2) b] by auto
  have mean: "\<forall>i<b. \<forall>j<d_model.
      get x6 [i, j] = (\<Sum>n\<leftarrow>[0..<?N]. get x5 [i, n, j]) / real ?N"
    using mean_dim1_get [OF s(8)] s(9) by fastforce
  have pe: "positional_encoding m = \<lparr>pe = pe_table (int d_model) (num_patches m)\<rparr>"
    using D by simp
  have spe: "shape (pe (positional_encoding m)) = [1, ?N, d_model]"
    using ok by (simp add: TransformerEncoder_ok_def)
  have padd: "\<forall>i<b. \<forall>n<?N. \<forall>k<d_model.
      get x3 [i, n, k] = get x2 [i, n, k] + get (pe (positional_encoding m)) [0, n, k]"
    using PositionalEncoding_forward_get [OF spe s(2) order_refl] s(3) by auto
  have len: "length (encoder_layers m) = L" using D by simp
  obtain zs where zs: "length zs = Suc L" "zs ! 0 = x3" "zs ! L = x4"
    "\<forall>i<L. EncoderLayer_forward (encoder_layers m ! i) (zs ! i) = Inr (zs ! Suc i)"
    using run_layers_chain [OF s(5)] len by auto
  have fw: "TransformerEncoder_forward m x = Inr y"
    using x1 s by (simp add: TransformerEncoder_forward_def)
  show ?thesis
    by (rule exI [of _ x1], rule exI [of _ x2], rule exI [of _ x3], rule exI [of _ zs],
        rule exI [of _ x4], rule exI [of _ x5], rule exI [of _ x6], rule exI [of _ y],
        (intro conjI; fact))
qed

theorem forward_pipeline_witness:
  "\<exists>m g' x1 x2 x3 z x4 y.
     TransformerEncoder_init 4 2 2 1 2 2 2 (\<lambda>_. 0) = Inr (m, g') \<and> num_patches m = 4 \<and>
     length (encoder_layers m) = 2 \<and>
     patchify m \<lparr>shape = [1, 3, 4, 4], data = replicate 48 (0::real)\<rparr> = Inr x1 \<and>
     shape x1 = [1, 4, 12] \<and>
     Linear_forward (patch_embedding m) x1 = Inr x2 \<and>
     PositionalEncoding_forward (positional_encoding m) x2 = Inr x3 \<and>
     EncoderLayer_forward (encoder_layers m ! 0) x3 = Inr z \<and>
     EncoderLayer_forward (encoder_layers m ! 1) z = Inr x4 \<and>
     run_layers (encoder_layers m) x3 = Inr x4 \<and>
     TransformerEncoder_forward m \<lparr>shape = [1, 3, 4, 4], data = replicate 48 0\<rparr> = Inr y \<and>
     shape y = [1, 2]"
proof -
  let ?x = "\<lparr>shape = [1, 3, 4, 4], data = replicate 48 (0::real)\<rparr>"
  obtain m g' where init: "TransformerEncoder_init 4 2 2 1 2 2 2 (\<lambda>_. 0) = Inr (m, g')"
    using TransformerEncoder_init_total [of 2 2 2 1 2 2 4 "\<lambda>_. 0"] by auto
  have init': "TransformerEncoder_init (int 4) (int 2) (int 2) (int 1) (int 2) (int 2) (int 2)
                 (\<lambda>_. 0) = Inr (m, g')"
    using init by simp
  have x: "shape ?x = [1, 3, 4, 4]" by simp
  have c: "(0::nat) < 2" "(2::nat) \<le> 4" "(0::nat) < 1 \<or> (2::nat) = 0" "(0::nat) < 1" by simp_all
  from forward_pipeline [OF init' c(1,2,3) x c(4)]
  obtain x1 x2 x3 zs x4 x5 x6 y where s:
    "patchify m ?x = Inr x1" "shape x1 = [1, (4 div 2)\<^sup>2, 3 * 2 * 2]"
    "Linear_forward (patch_embedding m) x1 = Inr x2"
    "num_patches m = int ((4 div 2)\<^sup>2)"
    "PositionalEncoding_forward (positional_encoding m) x2 = Inr x3"
    "length (encoder_layers m) = 2" "zs ! 0 = x3"
    "\<forall>i<2. EncoderLayer_forward (encoder_layers m ! i) (zs ! i) = Inr (zs ! Suc i)"
    "zs ! 2 = x4" "run_layers (encoder_layers m) x3 = Inr x4"
    "TransformerEncoder_forward m ?x = Inr y" "shape y = [1, 2]"
    by (elim exE conjE) (rule that; assumption)
  have l: "(0::nat) < 2" "(1::nat) < 2" by simp_all
  have "EncoderLayer_forward (encoder_layers m ! 0) (zs ! 0) = Inr (zs ! Suc 0)"
    and "EncoderLayer_forward (encoder_layers m ! 1) (zs ! 1) = Inr (zs ! Suc 1)"
    using s(8) l by blast+
  then have e: "EncoderLayer_forward (encoder_layers m ! 0) x3 = Inr (zs ! 1)"
    "EncoderLayer_forward (encoder_layers m ! 1) (zs ! 1) = Inr x4"
    using s(7,9) by (simp_all add: numeral_2_eq_2)
  have sh: "shape x1 = [1, 4, 12]" "num_patches m = 4" using s(2,4) by simp_all
  note s1 = s(1) and s3 = s(3) and s5 = s(5) and s6 = s(6) and s10 = s(10) and s11 = s(11)
    and s12 = s(12)
  show ?thesis
    by (rule exI [of _ m], rule exI [of _ g'], rule exI [of _ x1], rule exI [of _ x2],
        rule exI [of _ x3], rule exI [of _ "zs ! 1"], rule exI [of _ x4], rule exI [of _ y],
        (intro conjI; fact))
qed

end
